theory Spec2Isabelle
  imports Complex_Main
begin

section \<open>JavaScript values\<close>

text \<open>
  The notification service (backend/src/services/notification.js) is untyped JavaScript:
  the event payload, the metadata and the recipient key are arbitrary values.  They are
  modelled as the values that \<open>JSON.parse\<close> yields, and \<open>undefined\<close>: \<open>null\<close>, booleans,
  numbers, strings, arrays, and objects whose own properties hold such values.  An object
  is the list of its own properties, in their order; it inherits from \<open>Object.prototype\<close>,
  an array from \<open>Array.prototype\<close>.  A string is a list of code units, a \<open>char\<close> being a
  code unit below 256.

  A number is a real, an infinity or \<open>NaN\<close>.  The two conversions between numbers and
  strings are those of the runtime and are parameters of the model, about which nothing is
  assumed.
\<close>

datatype error = TypeError

datatype number = Finite real | PosInfinity | NegInfinity | NaN

datatype jsval =
    JUndefined
  | JNull
  | JBool bool
  | JNum number
  | JStr string
  | JArr "jsval list"
  | JObj "(string \<times> jsval) list"

record runtime =
  NumberToString :: "number \<Rightarrow> string"
  StringToNumber :: "string \<Rightarrow> number"

fun nullish :: "jsval \<Rightarrow> bool" where
  "nullish JUndefined = True"
| "nullish JNull = True"
| "nullish _ = False"

text \<open>Truthiness, as \<open>if (v)\<close>, \<open>!v\<close> and \<open>a || b\<close> read it.\<close>

fun js_truthy :: "jsval \<Rightarrow> bool" where
  "js_truthy JUndefined = False"
| "js_truthy JNull = False"
| "js_truthy (JBool b) = b"
| "js_truthy (JNum x) = (x \<noteq> Finite 0 \<and> x \<noteq> NaN)"
| "js_truthy (JStr s) = (s \<noteq> [])"
| "js_truthy (JArr _) = True"
| "js_truthy (JObj _) = True"

definition js_or :: "jsval \<Rightarrow> jsval \<Rightarrow> jsval" where
  "js_or a b = (if js_truthy a then a else b)"

text \<open>
  \<open>js_prop v k\<close> is the property \<open>k\<close> of a value that is neither \<open>null\<close> nor
  \<open>undefined\<close>, for the data keys that the source reads (\<open>title\<close>, \<open>userId\<close>,
  \<open>clientName\<close>, ...).  None of them is a property of \<open>Object.prototype\<close>, of
  \<open>Array.prototype\<close> or of a string, number or boolean, so the result is the own property
  of an object and \<open>undefined\<close> on every other value.
\<close>

fun js_prop :: "jsval \<Rightarrow> string \<Rightarrow> jsval" where
  "js_prop (JObj kvs) k = (case map_of kvs k of None \<Rightarrow> JUndefined | Some v \<Rightarrow> v)"
| "js_prop _ k = JUndefined"

text \<open>\<open>v.k\<close> raises a TypeError on \<open>null\<close> and \<open>undefined\<close>; \<open>v?.k\<close> yields \<open>undefined\<close> there.\<close>

definition js_get :: "jsval \<Rightarrow> string \<Rightarrow> error + jsval" where
  "js_get v k = (if nullish v then Inl TypeError else Inr (js_prop v k))"

definition js_opt_get :: "jsval \<Rightarrow> string \<Rightarrow> jsval" where
  "js_opt_get v k = (if nullish v then JUndefined else js_prop v k)"

subsection \<open>Conversion to strings and numbers\<close>

text \<open>Whole numbers in plain digits: array indices, and the milliseconds of \<open>Date.now()\<close>.\<close>

function string_of_nat :: "nat \<Rightarrow> string" where
  "string_of_nat n =
     (if n < 10 then [''0123456789'' ! n]
      else string_of_nat (n div 10) @ [''0123456789'' ! (n mod 10)])"
  by pat_completeness auto
termination
  by (relation "measure id") auto

declare string_of_nat.simps [simp del]

definition string_of_int :: "int \<Rightarrow> string" where
  "string_of_int i = (if i < 0 then CHR ''-'' # string_of_nat (nat (- i)) else string_of_nat (nat i))"

fun join_comma :: "string list \<Rightarrow> string" where
  "join_comma [] = []"
| "join_comma [s] = s"
| "join_comma (s # t # ss) = s @ '','' @ join_comma (t # ss)"

text \<open>The results of a list of evaluations, in order; the first error ends them.\<close>

fun collect :: "(error + 'a) list \<Rightarrow> error + 'a list" where
  "collect [] = Inr []"
| "collect (x # xs) =
     (case x of
        Inl e \<Rightarrow> Inl e
      | Inr a \<Rightarrow> (case collect xs of Inl e \<Rightarrow> Inl e | Inr as \<Rightarrow> Inr (a # as)))"

text \<open>
  \<open>String(v)\<close>, as a template literal applies it.  An array joins its elements with
  commas, \<open>null\<close> and \<open>undefined\<close> elements giving the empty string.  An object is
  converted by its \<open>toString\<close>: the inherited one answers \<open>[object Object]\<close>; an own
  property of that name is data, not a function, so it is passed over, \<open>valueOf\<close> yields no
  primitive either, and the conversion raises a TypeError.
\<close>

fun js_ToString :: "runtime \<Rightarrow> jsval \<Rightarrow> error + string" where
  "js_ToString rt JUndefined = Inr ''undefined''"
| "js_ToString rt JNull = Inr ''null''"
| "js_ToString rt (JBool b) = Inr (if b then ''true'' else ''false'')"
| "js_ToString rt (JNum x) = Inr (NumberToString rt x)"
| "js_ToString rt (JStr s) = Inr s"
| "js_ToString rt (JArr xs) =
     (case collect (map (\<lambda>x. if nullish x then Inr [] else js_ToString rt x) xs) of
        Inl e \<Rightarrow> Inl e
      | Inr ss \<Rightarrow> Inr (join_comma ss))"
| "js_ToString rt (JObj kvs) =
     (if ''toString'' \<in> fst ` set kvs then Inl TypeError else Inr ''[object Object]'')"

text \<open>
  \<open>Number(v)\<close>, as a comparison with a number applies it.  An object or array is first
  made a primitive, \<open>valueOf\<close> before \<open>toString\<close>; the inherited \<open>valueOf\<close> answers the
  object itself, so the primitive is the string that \<open>toString\<close> gives, if it gives one.
\<close>

fun js_ToNumber :: "runtime \<Rightarrow> jsval \<Rightarrow> error + number" where
  "js_ToNumber rt JUndefined = Inr NaN"
| "js_ToNumber rt JNull = Inr (Finite 0)"
| "js_ToNumber rt (JBool b) = Inr (Finite (if b then 1 else 0))"
| "js_ToNumber rt (JNum x) = Inr x"
| "js_ToNumber rt (JStr s) = Inr (StringToNumber rt s)"
| "js_ToNumber rt v =
     (case js_ToString rt v of Inl e \<Rightarrow> Inl e | Inr s \<Rightarrow> Inr (StringToNumber rt s))"

text \<open>\<open>x < y\<close> on numbers: false as soon as one of them is \<open>NaN\<close>.\<close>

fun number_less :: "number \<Rightarrow> number \<Rightarrow> bool" where
  "number_less NaN y = False"
| "number_less x NaN = False"
| "number_less (Finite x) (Finite y) = (x < y)"
| "number_less x PosInfinity = (x \<noteq> PosInfinity)"
| "number_less NegInfinity y = (y \<noteq> NegInfinity)"
| "number_less x y = False"

text \<open>\<open>v > k\<close> for a number \<open>k\<close>.\<close>

definition js_gt :: "runtime \<Rightarrow> jsval \<Rightarrow> real \<Rightarrow> error + bool" where
  "js_gt rt v k =
     (case js_ToNumber rt v of Inl e \<Rightarrow> Inl e | Inr x \<Rightarrow> Inr (number_less (Finite k) x))"

text \<open>
  A template literal: its pieces of text and its substitutions, converted to strings from
  left to right.
\<close>

datatype part = Lit string | Sub jsval

fun template :: "runtime \<Rightarrow> part list \<Rightarrow> error + string" where
  "template rt [] = Inr []"
| "template rt (Lit s # ps) =
     (case template rt ps of Inl e \<Rightarrow> Inl e | Inr t \<Rightarrow> Inr (s @ t))"
| "template rt (Sub v # ps) =
     (case js_ToString rt v of
        Inl e \<Rightarrow> Inl e
      | Inr s \<Rightarrow> (case template rt ps of Inl e \<Rightarrow> Inl e | Inr t \<Rightarrow> Inr (s @ t)))"

subsection \<open>Object literals\<close>

text \<open>
  \<open>{...v}\<close> copies the own enumerable properties of \<open>v\<close>: those of an object, the
  indexed elements of an array or string, nothing for the other values.
\<close>

fun js_spread :: "jsval \<Rightarrow> (string \<times> jsval) list" where
  "js_spread (JObj kvs) = kvs"
| "js_spread (JArr xs) = zip (map string_of_nat [0..<length xs]) xs"
| "js_spread (JStr s) = zip (map string_of_nat [0..<length s]) (map (\<lambda>c. JStr [c]) s)"
| "js_spread _ = []"

text \<open>\<open>{...o, k: v}\<close>: an existing key keeps its place and takes the new value.\<close>

fun obj_set :: "string \<Rightarrow> jsval \<Rightarrow> (string \<times> jsval) list \<Rightarrow> (string \<times> jsval) list" where
  "obj_set k v [] = [(k, v)]"
| "obj_set k v ((k', v') # kvs) =
     (if k' = k then (k, v) # kvs else (k', v') # obj_set k v kvs)"

text \<open>
  \<open>v?.includes(s)\<close>: \<open>undefined\<close> (falsy) on \<open>null\<close> and \<open>undefined\<close>, the substring
  test on a string, membership on an array, and a TypeError on any other value, which
  has no \<open>includes\<close> method to call (an own property of that name is data).
\<close>

fun includes_str :: "string \<Rightarrow> string \<Rightarrow> bool" where
  "includes_str [] p = (p = [])"
| "includes_str (c # cs) p = (take (length p) (c # cs) = p \<or> includes_str cs p)"

fun js_opt_includes :: "jsval \<Rightarrow> string \<Rightarrow> error + bool" where
  "js_opt_includes JUndefined p = Inr False"
| "js_opt_includes JNull p = Inr False"
| "js_opt_includes (JStr s) p = Inr (includes_str s p)"
| "js_opt_includes (JArr xs) p = Inr (JStr p \<in> set xs)"
| "js_opt_includes _ p = Inl TypeError"

section \<open>Notifications\<close>

text \<open>The constant tables \<open>NotificationChannels\<close>, \<open>NotificationTypes\<close>, \<open>NotificationPriorities\<close>.\<close>

definition IN_APP :: string where "IN_APP = ''in_app''"
definition EMAIL :: string where "EMAIL = ''email''"
definition SLACK :: string where "SLACK = ''slack''"
definition TEAMS :: string where "TEAMS = ''teams''"

definition PROPOSAL_CREATED :: string where "PROPOSAL_CREATED = ''proposal_created''"
definition PROPOSAL_APPROVED :: string where "PROPOSAL_APPROVED = ''proposal_approved''"
definition PROPOSAL_SUBMITTED :: string where "PROPOSAL_SUBMITTED = ''proposal_submitted''"
definition TASK_ASSIGNED :: string where "TASK_ASSIGNED = ''task_assigned''"
definition DEADLINE_ALERT :: string where "DEADLINE_ALERT = ''deadline_alert''"
definition COMPLIANCE_LOW :: string where "COMPLIANCE_LOW = ''compliance_low''"
definition AI_DRAFT_GENERATED :: string where "AI_DRAFT_GENERATED = ''ai_draft_generated''"
definition ESCALATION :: string where "ESCALATION = ''escalation''"

definition LOW :: int where "LOW = 1"
definition MEDIUM :: int where "MEDIUM = 2"
definition HIGH :: int where "HIGH = 3"
definition URGENT :: int where "URGENT = 4"
definition CRITICAL :: int where "CRITICAL = 5"

text \<open>
  The notification object.  \<open>nid\<close> and \<open>ntype\<close> are the fields \<open>id\<close> and \<open>type\<close>; the
  event type is a string, which the \<open>switch\<close> compares with the string constants.
  \<open>userId\<close> is \<open>undefined\<close> when the object has no such field (the classifier sets none).
\<close>

record notification =
  nid :: string
  ntype :: string
  timestamp :: string
  data :: jsval
  title :: string
  message :: string
  priority :: int
  channels :: "string list"
  metadata :: jsval
  userId :: jsval

section \<open>The prioritizer (class AIPrioritizer)\<close>

text \<open>
  A rule is a condition, an adjustment and a reason.  The condition's result is read by
  \<open>if (rule.condition(notification))\<close>, so it is modelled up to truthiness; it can raise.
\<close>

record rule =
  condition :: "notification \<Rightarrow> error + bool"
  adjustment :: int
  reason :: string

text \<open>The rule list of the constructor, on a given runtime.\<close>

definition rules :: "runtime \<Rightarrow> rule list" where
  "rules rt =
    [ \<lparr> condition = (\<lambda>n. Inr (priority n = CRITICAL)),
        adjustment = 2, reason = ''Critical priority escalation'' \<rparr>,
      \<lparr> condition = (\<lambda>n. Inr (ntype n = ESCALATION)),
        adjustment = 2, reason = ''Escalation event'' \<rparr>,
      \<lparr> condition = (\<lambda>n. Inr (ntype n = DEADLINE_ALERT)),
        adjustment = 1, reason = ''Deadline alert'' \<rparr>,
      \<lparr> condition = (\<lambda>n. Inr (ntype n = COMPLIANCE_LOW)),
        adjustment = 1, reason = ''Low compliance score'' \<rparr>,
      \<lparr> condition = (\<lambda>n. js_gt rt (js_opt_get (data n) ''estimatedValue'') 1000000),
        adjustment = 1, reason = ''High value proposal'' \<rparr>,
      \<lparr> condition = (\<lambda>n. js_opt_includes (js_opt_get (metadata n) ''clientName'') ''Strategic''),
        adjustment = 1, reason = ''Strategic client'' \<rparr> ]"

text \<open>The body of the \<open>if\<close> inside the loop of \<open>prioritize\<close>: the effect of one matching rule.\<close>

definition apply_rule :: "rule \<Rightarrow> notification \<Rightarrow> notification \<Rightarrow> notification" where
  "apply_rule r n adjusted =
     adjusted
       \<lparr> priority := min (priority adjusted + adjustment r) CRITICAL,
         metadata :=
           JObj (obj_set ''originalPriority'' (JNum (Finite (real_of_int (priority n))))
                  (obj_set ''prioritizationReason'' (JStr (reason r))
                    (js_spread (metadata adjusted)))) \<rparr>"

text \<open>The loop \<open>for (const rule of this.rules)\<close>, which stops at the first matching rule.\<close>

fun prioritize_loop :: "rule list \<Rightarrow> notification \<Rightarrow> notification \<Rightarrow> error + notification" where
  "prioritize_loop [] n adjusted = Inr adjusted"
| "prioritize_loop (r # rs) n adjusted =
     (case condition r n of
        Inl e \<Rightarrow> Inl e
      | Inr b \<Rightarrow> if b then Inr (apply_rule r n adjusted) else prioritize_loop rs n adjusted)"

text \<open>\<open>prioritize\<close> with the rule list as a parameter (the field \<open>this.rules\<close>), and with the list of the constructor.\<close>

definition prioritize_with :: "rule list \<Rightarrow> notification \<Rightarrow> error + notification" where
  "prioritize_with rs n = prioritize_loop rs n n"

definition prioritize :: "runtime \<Rightarrow> notification \<Rightarrow> error + notification" where
  "prioritize rt n = prioritize_with (rules rt) n"

section \<open>The classifier (generateNotification)\<close>

text \<open>
  What the service reads from its environment during one call: the runtime, \<open>Date.now()\<close>
  (a whole number of milliseconds), the ISO string of \<open>new Date()\<close>, the nine characters
  taken from \<open>Math.random()\<close>, and the identity of the recipient key when that is an
  object or an array (see \<open>map_key\<close>).
\<close>

record env =
  rt :: runtime
  now :: int
  isoNow :: string
  randomSuffix :: string
  keyIdentity :: nat

definition dq :: string where
  "dq = [CHR 0x22]"

text \<open>
  \<open>baseNotification\<close> has the fields \<open>id\<close>, \<open>type\<close>, \<open>timestamp\<close> and \<open>data\<close>; the
  remaining fields of the record are set by every branch of the \<open>switch\<close>.
\<close>

definition baseNotification :: "env \<Rightarrow> string \<Rightarrow> jsval \<Rightarrow> notification" where
  "baseNotification env eventType d =
     \<lparr> nid = ''NOTIF_'' @ string_of_int (now env) @ ''_'' @ randomSuffix env,
       ntype = eventType,
       timestamp = isoNow env,
       data = JObj (obj_set ''generatedAt'' (JStr (isoNow env)) (js_spread d)),
       title = [], message = [], priority = 0, channels = [],
       metadata = JUndefined, userId = JUndefined \<rparr>"

text \<open>\<open>data.k?.full_name || 'Unknown'\<close>.\<close>

definition full_name_or_unknown :: "jsval \<Rightarrow> string \<Rightarrow> jsval" where
  "full_name_or_unknown d k = js_or (js_opt_get (js_prop d k) ''full_name'') (JStr ''Unknown'')"

text \<open>
  One \<open>case\<close> of the \<open>switch\<close>: the object literal evaluates the template of the title,
  then that of the message, and raises when one of them does; the rest of the literal
  only reads properties of \<open>data\<close>.
\<close>

definition build ::
  "env \<Rightarrow> notification \<Rightarrow> part list \<Rightarrow> part list \<Rightarrow> int \<Rightarrow> string list \<Rightarrow> jsval
     \<Rightarrow> error + notification" where
  "build env base t m p cs md =
     (case template (rt env) t of
        Inl e \<Rightarrow> Inl e
      | Inr ttl \<Rightarrow>
          (case template (rt env) m of
             Inl e \<Rightarrow> Inl e
           | Inr msg \<Rightarrow>
               Inr (base\<lparr> title := ttl, message := msg, priority := p, channels := cs,
                          metadata := md \<rparr>)))"

text \<open>
  Each \<open>case\<close> but the \<open>default\<close> reads properties of \<open>data\<close> itself, first of all in its
  title, so it raises a TypeError when \<open>data\<close> is \<open>null\<close> or \<open>undefined\<close>.  The \<open>default\<close>
  branch reads no property of \<open>data\<close> and interpolates the event type only.
\<close>

definition generateNotification :: "env \<Rightarrow> string \<Rightarrow> jsval \<Rightarrow> error + notification" where
  "generateNotification env eventType d =
    (let base = baseNotification env eventType d in
     if eventType = PROPOSAL_CREATED then
       (if nullish d then Inl TypeError else
        build env base
          [Lit ''Proposal Created: '', Sub (js_prop d ''title'')]
          [Lit ''New proposal '', Lit dq, Sub (js_prop d ''title''), Lit dq, Lit '' created by '',
           Sub (full_name_or_unknown d ''createdBy'')]
          MEDIUM [IN_APP, EMAIL]
          (JObj [(''proposalId'', js_prop d ''proposalId''),
                 (''category'', js_prop d ''category''),
                 (''clientName'', js_prop d ''clientName''),
                 (''estimatedValue'', js_prop d ''estimatedValue'')]))
     else if eventType = PROPOSAL_APPROVED then
       (if nullish d then Inl TypeError else
        build env base
          [Lit ''Proposal Approved: '', Sub (js_prop d ''title'')]
          [Lit ''Proposal '', Lit dq, Sub (js_prop d ''title''), Lit dq,
           Lit '' has been approved by '', Sub (full_name_or_unknown d ''approvedBy'')]
          HIGH [IN_APP, EMAIL, SLACK]
          (JObj [(''proposalId'', js_prop d ''proposalId''),
                 (''approvedBy'', js_prop d ''approvedBy''),
                 (''approvedAt'', js_prop d ''approvedAt'')]))
     else if eventType = PROPOSAL_SUBMITTED then
       (if nullish d then Inl TypeError else
        build env base
          [Lit ''Proposal Submitted: '', Sub (js_prop d ''title'')]
          [Lit ''Proposal '', Lit dq, Sub (js_prop d ''title''), Lit dq,
           Lit '' has been submitted to client'']
          HIGH [IN_APP, EMAIL, TEAMS]
          (JObj [(''proposalId'', js_prop d ''proposalId''),
                 (''submittedAt'', js_prop d ''submittedAt'')]))
     else if eventType = TASK_ASSIGNED then
       (if nullish d then Inl TypeError else
        build env base
          [Lit ''Task Assigned: '', Sub (js_prop d ''title'')]
          [Lit ''Task '', Lit dq, Sub (js_prop d ''title''), Lit dq, Lit '' assigned to '',
           Sub (full_name_or_unknown d ''assignedTo'')]
          MEDIUM [IN_APP, EMAIL]
          (JObj [(''taskId'', js_prop d ''taskId''),
                 (''assignedTo'', js_prop d ''assignedTo''),
                 (''dueDate'', js_prop d ''dueDate''),
                 (''priority'', js_prop d ''priority'')]))
     else if eventType = DEADLINE_ALERT then
       (if nullish d then Inl TypeError else
        build env base
          [Lit ''Deadline Alert: '', Sub (js_prop d ''taskTitle'')]
          [Lit ''Task '', Lit dq, Sub (js_prop d ''taskTitle''), Lit dq,
           Lit '' is due soon or overdue!'']
          URGENT [IN_APP, EMAIL, SLACK]
          (JObj [(''taskId'', js_prop d ''taskId''),
                 (''dueDate'', js_prop d ''dueDate''),
                 (''overdue'', js_prop d ''overdue'')]))
     else if eventType = COMPLIANCE_LOW then
       (if nullish d then Inl TypeError else
        build env base
          [Lit ''Low Compliance Score: '', Sub (js_prop d ''proposalTitle'')]
          [Lit ''Proposal '', Lit dq, Sub (js_prop d ''proposalTitle''), Lit dq,
           Lit '' has low compliance score: '', Sub (js_prop d ''score''), Lit ''/100'']
          HIGH [IN_APP, EMAIL]
          (JObj [(''proposalId'', js_prop d ''proposalId''),
                 (''score'', js_prop d ''score''),
                 (''issues'', js_prop d ''issues'')]))
     else if eventType = AI_DRAFT_GENERATED then
       (if nullish d then Inl TypeError else
        build env base
          [Lit ''AI Draft Generated: '', Sub (js_prop d ''proposalTitle'')]
          [Lit ''AI draft generated for proposal '', Lit dq, Sub (js_prop d ''proposalTitle''),
           Lit dq]
          MEDIUM [IN_APP, EMAIL]
          (JObj [(''proposalId'', js_prop d ''proposalId''),
                 (''aiModel'', js_prop d ''aiModel''),
                 (''confidence'', js_prop d ''confidence'')]))
     else if eventType = ESCALATION then
       (if nullish d then Inl TypeError else
        build env base
          [Lit ''Escalation Required: '', Sub (js_prop d ''title'')]
          [Lit ''Escalation required for: '', Sub (js_prop d ''description'')]
          CRITICAL [IN_APP, EMAIL, SLACK, TEAMS]
          (JObj [(''escalationType'', js_prop d ''escalationType''),
                 (''reason'', js_prop d ''reason''),
                 (''escalatedTo'', js_prop d ''escalatedTo'')]))
     else
       build env base
         [Lit ''Notification: '', Sub (JStr eventType)]
         [Lit ''Event occurred: '', Sub (JStr eventType)]
         LOW [IN_APP] d)"


section \<open>The service (class NotificationService)\<close>

text \<open>
  The fields of the service that the dispatch engine uses.  \<open>channelMap\<close> is the field
  \<open>channels\<close>, from channel name to channel instance; an instance is modelled by what its
  \<open>sendBatch\<close> answers on a batch: \<open>None\<close> when it returns, \<open>Some e\<close> when it raises or
  rejects.  Three further components record what the service does to the outside:
  \<open>sendCalls\<close> the batches handed to \<open>sendBatch\<close>, \<open>emitted\<close> the \<open>notification\<close>
  events, \<open>logged\<close> the logger calls (the logger is taken not to raise).  \<open>timeouts\<close>
  holds the due times of the pending \<open>setTimeout\<close> callbacks, and \<open>batchTimer\<close> the
  handle of the last one, \<open>None\<close> for \<open>null\<close>.

  \<open>rateLimiters\<close> is a \<open>Map\<close>, which compares its keys by value when they are
  primitive and by identity when they are objects or arrays: two objects with the same
  properties are two keys.  \<open>map_key\<close> gives the key that a value is, from the value and
  from its identity.
\<close>

datatype key = KPrim jsval | KRef nat


record rate_entry =
  lastNotification :: int
  count :: int

datatype level = LInfo | LWarn | LError

type_synonym sender = "notification list \<Rightarrow> error option"

record service =
  notificationQueue :: "notification list"
  batchTimer :: "int option"
  rateLimiters :: "key \<rightharpoonup> rate_entry"
  channelMap :: "string \<rightharpoonup> sender"
  timeouts :: "int list"
  sendCalls :: "(string \<times> notification list) list"
  emitted :: "notification list"
  logged :: "(level \<times> string) list"

definition batchSize :: nat where
  "batchSize = 10"

definition batchTimeout :: int where
  "batchTimeout = 5000"

definition logger :: "level \<Rightarrow> string \<Rightarrow> service \<Rightarrow> service" where
  "logger l m s = s\<lparr>logged := logged s @ [(l, m)]\<rparr>"

text \<open>
  The four channel classes of the module.  Each \<open>sendBatch\<close> catches its own errors, or
  returns early without a webhook, so none of them raises into the service.
\<close>

definition InAppChannel :: sender where "InAppChannel ns = None"
definition EmailChannel :: sender where "EmailChannel ns = None"
definition SlackChannel :: sender where "SlackChannel ns = None"
definition TeamsChannel :: sender where "TeamsChannel ns = None"

definition initializeChannels :: "service \<Rightarrow> service" where
  "initializeChannels s =
     logger LInfo ''All notification channels initialized''
       (s\<lparr>channelMap := (channelMap s)
            (IN_APP \<mapsto> InAppChannel, EMAIL \<mapsto> EmailChannel,
             SLACK \<mapsto> SlackChannel, TEAMS \<mapsto> TeamsChannel)\<rparr>)"

text \<open>The constructor.  Its \<open>startBatchProcessor\<close> starts the periodic sweep, see \<open>sweep\<close>.\<close>

definition constructor :: service where
  "constructor =
     logger LInfo ''Notification Service initialized with event-driven architecture''
       (initializeChannels
         \<lparr> notificationQueue = [], batchTimer = None, rateLimiters = Map.empty,
           channelMap = Map.empty, timeouts = [], sendCalls = [], emitted = [],
           logged = [] \<rparr>)"

subsection \<open>Rate limiting\<close>





subsection \<open>Batching and routing\<close>

text \<open>
  \<open>scheduleBatchProcessing\<close> at time \<open>t\<close> registers a timeout due at \<open>t + batchTimeout\<close>
  and keeps its handle; the callback is \<open>batchTimerCallback\<close> below.
\<close>

definition scheduleBatchProcessing :: "int \<Rightarrow> service \<Rightarrow> service" where
  "scheduleBatchProcessing t s =
     s\<lparr>batchTimer := Some (t + batchTimeout), timeouts := timeouts s @ [t + batchTimeout]\<rparr>"

text \<open>
  \<open>groupBatchByChannel\<close> fills a \<open>Map\<close>, which keeps its keys in insertion order: an
  association list whose keys are in order of first appearance.
\<close>

fun group_push ::
  "string \<Rightarrow> notification \<Rightarrow> (string \<times> notification list) list \<Rightarrow> (string \<times> notification list) list"
where
  "group_push c n [] = [(c, [n])]"
| "group_push c n ((k, ns) # g) =
     (if k = c then (k, ns @ [n]) # g else (k, ns) # group_push c n g)"

definition groupBatchByChannel :: "notification list \<Rightarrow> (string \<times> notification list) list" where
  "groupBatchByChannel batch =
     foldl (\<lambda>grouped n. foldl (\<lambda>g c. group_push c n g) grouped (channels n)) [] batch"

text \<open>
  \<open>processChannelBatch\<close>.  \<open>Array.prototype.sort\<close> is stable, and the comparator
  \<open>b.priority - a.priority\<close> orders by descending priority: the stable sort on the key
  \<open>- priority\<close>.  The \<open>catch\<close> turns an error of the sender into a log entry.
\<close>

definition processChannelBatch :: "string \<Rightarrow> notification list \<Rightarrow> service \<Rightarrow> service" where
  "processChannelBatch channel notifications s =
    (case channelMap s channel of
       None \<Rightarrow> logger LWarn (''Channel '' @ channel @ '' not found'') s
     | Some channelInstance \<Rightarrow>
         let ordered = sort_key (\<lambda>n. - priority n) notifications;
             s1 = s\<lparr>sendCalls := sendCalls s @ [(channel, ordered)]\<rparr>
         in (case channelInstance ordered of
               None \<Rightarrow>
                 logger LInfo (''Sent '' @ string_of_nat (length ordered)
                                @ '' notifications via '' @ channel) s1
             | Some e \<Rightarrow>
                 logger LError (''Error processing batch for channel '' @ channel @ '':'') s1))"

text \<open>
  \<open>processBatch\<close>; \<open>t\<close> is the time of its re-arming.  Nothing inside its \<open>try\<close> raises
  in this model (\<open>processChannelBatch\<close> catches the errors of the senders), so its
  \<open>catch\<close> has no branch here.
\<close>

definition processBatch :: "int \<Rightarrow> service \<Rightarrow> service" where
  "processBatch t s =
    (if notificationQueue s = [] then s
     else
       let batch = take batchSize (notificationQueue s);
           s1 = s\<lparr>notificationQueue := drop batchSize (notificationQueue s)\<rparr>;
           s2 = logger LInfo (''Processing notification batch: '' @ string_of_nat (length batch)
                               @ '' notifications'') s1;
           s3 = foldl (\<lambda>s (channel, notifications). processChannelBatch channel notifications s)
                  s2 (groupBatchByChannel batch)
       in if notificationQueue s3 \<noteq> [] then scheduleBatchProcessing t s3 else s3)"



subsection \<open>publish\<close>


subsection \<open>The events of a run\<close>

datatype event =
    Publish env string jsval
  | TimeoutFires int
  | SweepTick int



section \<open>Notions used to state the properties\<close>

text \<open>
  The group that \<open>groupBatchByChannel\<close> holds for a channel, empty when it has none.
\<close>

definition group_of :: "(string \<times> notification list) list \<Rightarrow> string \<Rightarrow> notification list" where
  "group_of g c = (case map_of g c of None \<Rightarrow> [] | Some ns \<Rightarrow> ns)"

text \<open>
  The sub-batch a channel is expected to get from a batch, before sorting: the
  notifications of the batch that name the channel, in batch order (once per occurrence
  of the channel in \<open>channels\<close>, which the classifier never repeats).
\<close>

definition sub_batch :: "string \<Rightarrow> notification list \<Rightarrow> notification list" where
  "sub_batch c batch = concat (map (\<lambda>n. replicate (count_list (channels n) c) n) batch)"

text \<open>
  The calls of \<open>sendBatch\<close> that routing a list of groups makes: one per group whose
  channel is registered, in the order of the groups, with the group sorted.
\<close>

definition handed_over ::
  "(string \<rightharpoonup> sender) \<Rightarrow> (string \<times> notification list) list \<Rightarrow> (string \<times> notification list) list" where
  "handed_over cm g = [(c, sort_key (\<lambda>n. - priority n) ns). (c, ns) \<leftarrow> g, cm c \<noteq> None]"

text \<open>
  A plain value: no object in it has an own property named \<open>toString\<close>.  Such a value
  converts to a string.
\<close>

fun plain :: "jsval \<Rightarrow> bool" where
  "plain (JArr xs) = list_all plain xs"
| "plain (JObj kvs) = (''toString'' \<notin> fst ` set kvs \<and> list_all (\<lambda>p. plain (snd p)) kvs)"
| "plain v = True"

section \<open>Examples\<close>

text \<open>
  Concrete environments, notifications, event sequences and services, used to run the
  model.  \<open>FailingChannel\<close> is a sender that always raises.  \<open>example_runtime\<close> stands
  in for the runtime: the examples convert no number to a string and no string to a
  number, so every runtime gives the same results on them (lemmas
  \<open>examples_classified_on_any_runtime\<close> and \<open>examples_prioritized_on_any_runtime\<close>).
\<close>

definition example_runtime :: runtime where
  "example_runtime =
     \<lparr> NumberToString =
         (\<lambda>x. case x of
                 Finite r \<Rightarrow> string_of_int \<lfloor>r\<rfloor>
               | PosInfinity \<Rightarrow> ''Infinity''
               | NegInfinity \<Rightarrow> ''-Infinity''
               | NaN \<Rightarrow> ''NaN''),
       StringToNumber = (\<lambda>s. NaN) \<rparr>"

definition deadline_example :: notification where
  "deadline_example =
     \<lparr> nid = ''NOTIF_1000_k3j9x0q2a'', ntype = ''deadline_alert'',
       timestamp = ''2026-01-01T00:00:01.000Z'',
       data = JObj [(''taskTitle'', JStr ''Bid''), (''estimatedValue'', JNum (Finite 2000000)),
                    (''generatedAt'', JStr ''2026-01-01T00:00:01.000Z'')],
       title = ''Deadline Alert: Bid'',
       message = ''Task '' @ dq @ ''Bid'' @ dq @ '' is due soon or overdue!'',
       priority = 4, channels = [''in_app'', ''email'', ''slack''],
       metadata = JObj [(''taskId'', JUndefined), (''dueDate'', JUndefined),
                        (''overdue'', JUndefined)],
       userId = JUndefined \<rparr>"

definition task_example :: "jsval \<Rightarrow> notification" where
  "task_example payload =
     \<lparr> nid = ''NOTIF_1000_k3j9x0q2a'', ntype = ''task_assigned'',
       timestamp = ''2026-01-01T00:00:01.000Z'',
       data = payload,
       title = ''Task Assigned: Quote'',
       message = ''Task '' @ dq @ ''Quote'' @ dq @ '' assigned to Unknown'',
       priority = 2, channels = [''in_app'', ''email''],
       metadata = JObj [(''taskId'', JUndefined), (''assignedTo'', JUndefined),
                        (''dueDate'', JUndefined), (''priority'', JUndefined)],
       userId = JUndefined \<rparr>"

definition high_value_task :: notification where
  "high_value_task =
     task_example (JObj [(''title'', JStr ''Quote''), (''estimatedValue'', JNum (Finite 2000000)),
                         (''generatedAt'', JStr ''2026-01-01T00:00:01.000Z'')])"

definition plain_task :: notification where
  "plain_task =
     task_example (JObj [(''title'', JStr ''Quote''),
                         (''generatedAt'', JStr ''2026-01-01T00:00:01.000Z'')])"

definition escalation_example :: notification where
  "escalation_example =
     \<lparr> nid = ''NOTIF_1000_k3j9x0q2a'', ntype = ''escalation'',
       timestamp = ''2026-01-01T00:00:01.000Z'',
       data = JObj [(''reason'', JStr ''SLA breach''), (''escalatedTo'', JStr ''gm-1''),
                    (''generatedAt'', JStr ''2026-01-01T00:00:01.000Z'')],
       title = ''Escalation Required: undefined'',
       message = ''Escalation required for: undefined'',
       priority = 5, channels = [''in_app'', ''email'', ''slack'', ''teams''],
       metadata = JObj [(''escalationType'', JUndefined), (''reason'', JStr ''SLA breach''),
                        (''escalatedTo'', JStr ''gm-1'')],
       userId = JUndefined \<rparr>"

definition high_value_proposal :: notification where
  "high_value_proposal =
     high_value_task \<lparr> nid := ''NOTIF_2000_zzzzzzzzz'', title := ''Task Assigned: Tender'',
                       data := JObj [(''title'', JStr ''Tender''), (''estimatedValue'', JNum (Finite 2000000)),
                                     (''userId'', JStr ''u-7'')] \<rparr>"

definition example_env :: env where
  "example_env =
     \<lparr> rt = example_runtime, now = 1000, isoNow = ''2026-01-01T00:00:01.000Z'',
       randomSuffix = ''k3j9x0q2a'', keyIdentity = 0 \<rparr>"

definition sample :: "string \<Rightarrow> int \<Rightarrow> string list \<Rightarrow> notification" where
  "sample i p cs =
     \<lparr> nid = i, ntype = ''report_ready'', timestamp = ''2026-01-01T00:00:00.000Z'',
       data = JObj [(''generatedAt'', JStr ''2026-01-01T00:00:00.000Z'')],
       title = ''Notification: report_ready'', message = ''Event occurred: report_ready'',
       priority = p, channels = cs, metadata = JObj [], userId = JUndefined \<rparr>"

definition tick :: "nat \<Rightarrow> env" where
  "tick i =
     \<lparr> rt = example_runtime, now = 100 * int i, isoNow = ''2026-01-01T00:00:00.000Z'',
       randomSuffix = ''k3j9x0q2a'', keyIdentity = 0 \<rparr>"


definition report :: "nat \<Rightarrow> notification" where
  "report i = sample (''NOTIF_'' @ string_of_int (100 * int i) @ ''_k3j9x0q2a'') LOW [IN_APP]"


definition user_payload :: jsval where
  "user_payload = JObj [(''title'', JStr ''Quote''), (''userId'', JStr ''u-7'')]"

definition user_task :: notification where
  "user_task =
     task_example (JObj [(''title'', JStr ''Quote''), (''userId'', JStr ''u-7''),
                         (''generatedAt'', JStr ''2026-01-01T00:00:01.000Z'')])"


definition FailingChannel :: sender where
  "FailingChannel ns = Some TypeError"

definition routing_example :: service where
  "routing_example =
     constructor
       \<lparr>notificationQueue :=
          [sample ''a'' MEDIUM [IN_APP, EMAIL], sample ''b'' CRITICAL [EMAIL, SLACK],
           sample ''c'' MEDIUM [EMAIL], sample ''d'' CRITICAL [IN_APP]]\<rparr>"

definition failing_example :: service where
  "failing_example =
     routing_example\<lparr>channelMap := [IN_APP \<mapsto> FailingChannel, EMAIL \<mapsto> EmailChannel]\<rparr>"

definition letters :: "string \<Rightarrow> notification list" where
  "letters cs = map (\<lambda>c. sample [c] LOW [IN_APP]) cs"

definition backlog_example :: service where
  "backlog_example = constructor\<lparr>notificationQueue := letters ''abcdefghijkl''\<rparr>"

definition numeric_client_payload :: jsval where
  "numeric_client_payload = JObj [(''title'', JStr ''Quote''), (''clientName'', JNum (Finite 42))]"



definition unprintable_payload :: jsval where
  "unprintable_payload = JObj [(''title'', JObj [(''toString'', JNum (Finite 1))])]"

definition unconvertible_value_payload :: jsval where
  "unconvertible_value_payload =
     JObj [(''title'', JStr ''Quote''),
           (''estimatedValue'', JObj [(''toString'', JNum (Finite 1))])]"

definition prioritized_escalation :: notification where
  "prioritized_escalation =
     escalation_example
       \<lparr>metadata := JObj [(''escalationType'', JUndefined), (''reason'', JStr ''SLA breach''),
                          (''escalatedTo'', JStr ''gm-1''),
                          (''prioritizationReason'', JStr ''Critical priority escalation''),
                          (''originalPriority'', JNum (Finite 5))]\<rparr>"

section \<open>Facts about the model\<close>

lemmas type_defs =
  PROPOSAL_CREATED_def PROPOSAL_APPROVED_def PROPOSAL_SUBMITTED_def TASK_ASSIGNED_def
  DEADLINE_ALERT_def COMPLIANCE_LOW_def AI_DRAFT_GENERATED_def ESCALATION_def

lemmas channel_defs = IN_APP_def EMAIL_def SLACK_def TEAMS_def

lemmas priority_defs = LOW_def MEDIUM_def HIGH_def URGENT_def CRITICAL_def

lemma map_of_obj_set: "map_of (obj_set k v kvs) = (map_of kvs)(k \<mapsto> v)"
  by (induction kvs) auto

text \<open>What a \<open>case\<close> of the classifier sets, when its two templates return.\<close>

lemma build_fields:
  "build env base t m p cs md = Inr n \<Longrightarrow>
   priority n = p \<and> channels n = cs \<and> metadata n = md \<and> ntype n = ntype base
   \<and> userId n = userId base \<and> data n = data base \<and> nid n = nid base
   \<and> timestamp n = timestamp base"
  by (auto simp: build_def split: sum.splits)

lemma base_fields:
  "ntype (baseNotification env eventType d) = eventType"
  "userId (baseNotification env eventType d) = JUndefined"
  by (simp_all add: baseNotification_def)

text \<open>The example notifications are what the classifier makes of these payloads.\<close>

lemma string_of_1000: "string_of_int 1000 = ''1000''"
  by code_simp

lemma classify_high_value_task:
  "generateNotification example_env TASK_ASSIGNED
     (JObj [(''title'', JStr ''Quote''), (''estimatedValue'', JNum (Finite 2000000))]) = Inr high_value_task"
  by (simp add: generateNotification_def baseNotification_def Let_def type_defs example_env_def
        high_value_task_def task_example_def build_def full_name_or_unknown_def
        js_or_def js_opt_get_def dq_def priority_defs channel_defs string_of_1000)

lemma classify_plain_task:
  "generateNotification example_env TASK_ASSIGNED (JObj [(''title'', JStr ''Quote'')]) = Inr plain_task"
  by (simp add: generateNotification_def baseNotification_def Let_def type_defs example_env_def
        plain_task_def task_example_def build_def full_name_or_unknown_def
        js_or_def js_opt_get_def dq_def priority_defs channel_defs string_of_1000)

lemma classify_escalation_example:
  "generateNotification example_env ESCALATION
     (JObj [(''reason'', JStr ''SLA breach''), (''escalatedTo'', JStr ''gm-1'')]) = Inr escalation_example"
  by (simp add: generateNotification_def baseNotification_def Let_def type_defs example_env_def
        escalation_example_def build_def priority_defs channel_defs string_of_1000)






lemma loop_bounds:
  "\<forall>r \<in> set rs. 0 \<le> adjustment r \<Longrightarrow> priority a \<le> CRITICAL \<Longrightarrow>
   prioritize_loop rs n a = Inr n' \<Longrightarrow> priority a \<le> priority n' \<and> priority n' \<le> CRITICAL"
  by (induction rs) (auto simp: apply_rule_def split: sum.splits if_splits)

lemma rules_adjustment_nonneg: "\<forall>r \<in> set (rules rtm). 0 \<le> adjustment r"
  by (simp add: rules_def)

lemma loop_returns:
  "\<forall>r \<in> set rs. \<exists>b. condition r n = Inr b \<Longrightarrow> \<exists>n'. prioritize_loop rs n a = Inr n'"
  by (induction rs) (auto split: sum.splits)

text \<open>Every notification the classifier makes has its priority on the scale.\<close>

lemma classify_priority_on_scale:
  "generateNotification env eventType d = Inr n \<Longrightarrow> LOW \<le> priority n \<and> priority n \<le> CRITICAL"
  by (auto simp: generateNotification_def Let_def priority_defs
           dest!: build_fields split: if_splits)

text \<open>
  C5.  For every notification (its priority on the scale, so at most CRITICAL), the
  priority of the result of \<open>prioritize\<close> is at least the priority of the input and at
  most CRITICAL.  The same holds of every rule list whose adjustments are not negative,
  and such a list gives a result whenever each of its conditions answers.
\<close>
theorem prioritize_priority_bounds:
  "priority n \<le> CRITICAL \<Longrightarrow>
     (\<forall>n'. prioritize rtm n = Inr n' \<longrightarrow> priority n \<le> priority n' \<and> priority n' \<le> CRITICAL)
   \<and> ((\<forall>r \<in> set rs. 0 \<le> adjustment r) \<longrightarrow>
         (\<forall>n'. prioritize_with rs n = Inr n'
                \<longrightarrow> priority n \<le> priority n' \<and> priority n' \<le> CRITICAL)
       \<and> ((\<forall>r \<in> set rs. \<exists>b. condition r n = Inr b) \<longrightarrow> (\<exists>n'. prioritize_with rs n = Inr n')))"
  using loop_bounds [where rs = "rules rtm" and n = n and a = n, OF rules_adjustment_nonneg]
        loop_bounds [of rs n n] loop_returns [of rs n n]
  by (auto simp: prioritize_def prioritize_with_def)

lemma prioritize_high_value_task:
  "prioritize example_runtime high_value_task =
     Inr (high_value_task
           \<lparr> priority := 3,
             metadata := JObj [(''taskId'', JUndefined), (''assignedTo'', JUndefined),
                               (''dueDate'', JUndefined), (''priority'', JUndefined),
                               (''prioritizationReason'', JStr ''High value proposal''),
                               (''originalPriority'', JNum (Finite 2))] \<rparr>)"
  by (simp add: prioritize_def prioritize_with_def rules_def high_value_task_def task_example_def
        type_defs priority_defs js_opt_get_def js_gt_def apply_rule_def)

lemma prioritize_plain_task: "prioritize example_runtime plain_task = Inr plain_task"
  by (simp add: prioritize_def prioritize_with_def rules_def plain_task_def task_example_def
        type_defs priority_defs js_opt_get_def js_gt_def apply_rule_def)

theorem prioritize_priority_bounds_witness:
  "priority high_value_task = 2 \<and> 2 \<le> CRITICAL
   \<and> adjustment (rules example_runtime ! 4) = 1
   \<and> condition (rules example_runtime ! 4) high_value_task = Inr True
   \<and> (\<exists>n'. prioritize example_runtime high_value_task = Inr n'
          \<and> prioritize_with (rules example_runtime) high_value_task = Inr n'
          \<and> priority n' = 3 \<and> 2 \<le> priority n' \<and> priority n' \<le> CRITICAL)"
proof -
  have p: "priority high_value_task = 2"
    by (simp add: high_value_task_def task_example_def)
  have le: "priority high_value_task \<le> CRITICAL"
    by (simp add: p CRITICAL_def)
  have r5: "adjustment (rules example_runtime ! 4) = 1"
    "condition (rules example_runtime ! 4) high_value_task = Inr True"
    by (simp_all add: rules_def high_value_task_def task_example_def js_opt_get_def js_gt_def)
  have adj: "\<forall>r \<in> set (rules example_runtime). 0 \<le> adjustment r"
    by (simp add: rules_def)
  have ret: "\<forall>r \<in> set (rules example_runtime). \<exists>b. condition r high_value_task = Inr b"
    by (auto simp: rules_def high_value_task_def task_example_def js_opt_get_def js_gt_def)
  from prioritize_priority_bounds [OF le, of example_runtime "rules example_runtime"] adj ret
  obtain m where m: "prioritize_with (rules example_runtime) high_value_task = Inr m"
    and b: "priority high_value_task \<le> priority m \<and> priority m \<le> CRITICAL"
    by blast
  have n': "prioritize example_runtime high_value_task
              = Inr (high_value_task
                      \<lparr> priority := 3,
                        metadata := JObj [(''taskId'', JUndefined), (''assignedTo'', JUndefined),
                                          (''dueDate'', JUndefined), (''priority'', JUndefined),
                                          (''prioritizationReason'', JStr ''High value proposal''),
                                          (''originalPriority'', JNum (Finite 2))] \<rparr>)"
    by (rule prioritize_high_value_task)
  with m have "priority m = 3"
    by (simp add: prioritize_def)
  with m b p have "prioritize example_runtime high_value_task = Inr m
          \<and> prioritize_with (rules example_runtime) high_value_task = Inr m
          \<and> priority m = 3 \<and> 2 \<le> priority m \<and> priority m \<le> CRITICAL"
    by (simp add: prioritize_def)
  then have "\<exists>n'. prioritize example_runtime high_value_task = Inr n'
          \<and> prioritize_with (rules example_runtime) high_value_task = Inr n'
          \<and> priority n' = 3 \<and> 2 \<le> priority n' \<and> priority n' \<le> CRITICAL"
    by (rule exI)
  with p le r5 show ?thesis
    by simp
qed

text \<open>
  Two conditions can raise: the comparison of \<open>estimatedValue\<close> on an object that cannot
  be converted to a number, and \<open>clientName?.includes\<close> on a value that is neither a
  string nor an array.  Then \<open>prioritize\<close> raises.
\<close>

lemma prioritize_raises_on_numeric_client:
  "\<exists>n. generateNotification example_env PROPOSAL_CREATED numeric_client_payload = Inr n
       \<and> prioritize rtm n = Inl TypeError"
  by (simp add: generateNotification_def baseNotification_def build_def Let_def type_defs
        example_env_def numeric_client_payload_def prioritize_def prioritize_with_def rules_def
        priority_defs js_opt_get_def js_gt_def full_name_or_unknown_def js_or_def)

lemma prioritize_raises_on_unconvertible_value:
  "\<exists>n. generateNotification example_env TASK_ASSIGNED unconvertible_value_payload = Inr n
       \<and> prioritize rtm n = Inl TypeError"
  by (simp add: generateNotification_def baseNotification_def build_def Let_def type_defs
        example_env_def unconvertible_value_payload_def prioritize_def prioritize_with_def
        rules_def priority_defs js_opt_get_def js_gt_def full_name_or_unknown_def js_or_def)

lemma loop_same_inputs:
  "\<forall>r \<in> set rs. condition r a = condition r b \<Longrightarrow> priority a = priority b \<Longrightarrow>
   priority x = priority y \<Longrightarrow> metadata x = metadata y \<Longrightarrow>
   (case prioritize_loop rs a x of
      Inl e \<Rightarrow> prioritize_loop rs b y = Inl e
    | Inr a' \<Rightarrow> \<exists>b'. prioritize_loop rs b y = Inr b'
                     \<and> priority a' = priority b' \<and> metadata a' = metadata b')"
  by (induction rs) (auto simp: apply_rule_def split: sum.splits)

lemma rules_read:
  "priority a = priority b \<Longrightarrow> ntype a = ntype b \<Longrightarrow> metadata a = metadata b \<Longrightarrow>
   js_opt_get (data a) ''estimatedValue'' = js_opt_get (data b) ''estimatedValue'' \<Longrightarrow>
   \<forall>r \<in> set (rules rtm). condition r a = condition r b"
  by (simp add: rules_def)

text \<open>
  C9, as amended.  The rule predicates read the priority, the type, the metadata and the
  \<open>estimatedValue\<close> of the data payload: two notifications that agree on these get the
  same rule applied (or none, or the same error), hence the same resulting priority and
  the same resulting metadata, \<open>prioritizationReason\<close> included.
\<close>
theorem prioritize_depends_on:
  "priority a = priority b \<Longrightarrow> ntype a = ntype b \<Longrightarrow> metadata a = metadata b \<Longrightarrow>
   js_opt_get (data a) ''estimatedValue'' = js_opt_get (data b) ''estimatedValue'' \<Longrightarrow>
   (case prioritize rtm a of
      Inl e \<Rightarrow> prioritize rtm b = Inl e
    | Inr a' \<Rightarrow> \<exists>b'. prioritize rtm b = Inr b' \<and> priority a' = priority b' \<and> metadata a' = metadata b')"
  unfolding prioritize_def prioritize_with_def
  by (rule loop_same_inputs [OF rules_read])

theorem prioritize_depends_on_witness:
  "priority high_value_task = priority high_value_proposal
   \<and> ntype high_value_task = ntype high_value_proposal
   \<and> metadata high_value_task = metadata high_value_proposal
   \<and> data high_value_task \<noteq> data high_value_proposal
   \<and> (\<exists>a' b'. prioritize example_runtime high_value_task = Inr a' \<and> prioritize example_runtime high_value_proposal = Inr b'
        \<and> priority a' = 3 \<and> priority b' = 3 \<and> metadata a' = metadata b')"
proof -
  have eqs: "priority high_value_task = priority high_value_proposal"
    "ntype high_value_task = ntype high_value_proposal"
    "metadata high_value_task = metadata high_value_proposal"
    "js_opt_get (data high_value_task) ''estimatedValue''
       = js_opt_get (data high_value_proposal) ''estimatedValue''"
    by (simp_all add: high_value_proposal_def high_value_task_def task_example_def js_opt_get_def)
  have ne: "data high_value_task \<noteq> data high_value_proposal"
    by (simp add: high_value_proposal_def high_value_task_def task_example_def)
  from prioritize_depends_on [OF eqs, of example_runtime]
  have "\<exists>b'. prioritize example_runtime high_value_proposal = Inr b'
          \<and> priority (high_value_task\<lparr>priority := 3,
             metadata := JObj [(''taskId'', JUndefined), (''assignedTo'', JUndefined),
                               (''dueDate'', JUndefined), (''priority'', JUndefined),
                               (''prioritizationReason'', JStr ''High value proposal''),
                               (''originalPriority'', JNum (Finite 2))] \<rparr>) = priority b'
          \<and> metadata (high_value_task\<lparr>priority := 3,
             metadata := JObj [(''taskId'', JUndefined), (''assignedTo'', JUndefined),
                               (''dueDate'', JUndefined), (''priority'', JUndefined),
                               (''prioritizationReason'', JStr ''High value proposal''),
                               (''originalPriority'', JNum (Finite 2))] \<rparr>) = metadata b'"
    by (simp add: prioritize_high_value_task)
  then obtain b' where "prioritize example_runtime high_value_proposal = Inr b'" "priority b' = 3"
    "metadata (high_value_task\<lparr>priority := 3,
             metadata := JObj [(''taskId'', JUndefined), (''assignedTo'', JUndefined),
                               (''dueDate'', JUndefined), (''priority'', JUndefined),
                               (''prioritizationReason'', JStr ''High value proposal''),
                               (''originalPriority'', JNum (Finite 2))] \<rparr>) = metadata b'"
    by auto
  with eqs ne show ?thesis
    by (simp add: prioritize_high_value_task)
qed

text \<open>
  C9 as stated fails: two task notifications with the same priority, type and metadata,
  one with \<open>estimatedValue\<close> 2000000 in its data payload and one without.  The fifth rule
  raises the first to priority 3 (``High value proposal'') and leaves the second alone.
\<close>
theorem predicates_read_data_counterexample:
  "generateNotification example_env TASK_ASSIGNED
     (JObj [(''title'', JStr ''Quote''), (''estimatedValue'', JNum (Finite 2000000))]) = Inr high_value_task
   \<and> generateNotification example_env TASK_ASSIGNED (JObj [(''title'', JStr ''Quote'')])
       = Inr plain_task
   \<and> priority high_value_task = priority plain_task
   \<and> ntype high_value_task = ntype plain_task
   \<and> metadata high_value_task = metadata plain_task
   \<and> prioritize example_runtime high_value_task =
       Inr (high_value_task
             \<lparr> priority := 3,
               metadata := JObj [(''taskId'', JUndefined), (''assignedTo'', JUndefined),
                                 (''dueDate'', JUndefined), (''priority'', JUndefined),
                                 (''prioritizationReason'', JStr ''High value proposal''),
                                 (''originalPriority'', JNum (Finite 2))] \<rparr>)
   \<and> prioritize example_runtime plain_task = Inr plain_task
   \<and> priority plain_task = 2"
  by (simp add: prioritize_high_value_task prioritize_plain_task classify_high_value_task
        classify_plain_task)
     (simp add: high_value_task_def plain_task_def task_example_def)

lemma prioritize_critical:
  "priority n = CRITICAL \<Longrightarrow>
   prioritize rtm n =
     Inr (n\<lparr>metadata :=
              JObj (obj_set ''originalPriority'' (JNum (Finite 5))
                     (obj_set ''prioritizationReason'' (JStr ''Critical priority escalation'')
                       (js_spread (metadata n))))\<rparr>)"
  by (simp add: prioritize_def prioritize_with_def rules_def apply_rule_def CRITICAL_def)

lemma classify_escalation:
  "generateNotification env ESCALATION d = Inr n \<Longrightarrow>
   priority n = CRITICAL \<and> ntype n = ESCALATION
   \<and> metadata n = JObj [(''escalationType'', js_prop d ''escalationType''),
                        (''reason'', js_prop d ''reason''),
                        (''escalatedTo'', js_prop d ''escalatedTo'')]"
  by (auto simp: generateNotification_def Let_def type_defs base_fields
           dest!: build_fields split: if_splits)

lemma obj_set_same: "map_of kvs k = Some v \<Longrightarrow> obj_set k v kvs = kvs"
  by (induction kvs) (auto split: if_splits)

lemma critical_metadata_unchanged:
  "(JObj (obj_set ''originalPriority'' (JNum (Finite 5))
           (obj_set ''prioritizationReason'' (JStr ''Critical priority escalation'')
             (js_spread m))) = m)
   = (\<exists>kvs. m = JObj kvs
         \<and> map_of kvs ''prioritizationReason'' = Some (JStr ''Critical priority escalation'')
         \<and> map_of kvs ''originalPriority'' = Some (JNum (Finite 5)))"
proof
  assume eq: "JObj (obj_set ''originalPriority'' (JNum (Finite 5))
           (obj_set ''prioritizationReason'' (JStr ''Critical priority escalation'')
             (js_spread m))) = m"
  then obtain kvs where m: "m = JObj kvs"
    by (cases m) auto
  define f where "f = obj_set ''originalPriority'' (JNum (Finite 5))
           (obj_set ''prioritizationReason'' (JStr ''Critical priority escalation'') kvs)"
  have "map_of f ''prioritizationReason'' = Some (JStr ''Critical priority escalation'')"
    and "map_of f ''originalPriority'' = Some (JNum (Finite 5))"
    by (simp_all add: f_def map_of_obj_set)
  moreover from eq m have "f = kvs"
    by (simp add: f_def)
  ultimately show "\<exists>kvs. m = JObj kvs
         \<and> map_of kvs ''prioritizationReason'' = Some (JStr ''Critical priority escalation'')
         \<and> map_of kvs ''originalPriority'' = Some (JNum (Finite 5))"
    using m by simp
next
  assume "\<exists>kvs. m = JObj kvs
         \<and> map_of kvs ''prioritizationReason'' = Some (JStr ''Critical priority escalation'')
         \<and> map_of kvs ''originalPriority'' = Some (JNum (Finite 5))"
  then show "JObj (obj_set ''originalPriority'' (JNum (Finite 5))
           (obj_set ''prioritizationReason'' (JStr ''Critical priority escalation'')
             (js_spread m))) = m"
    by (auto simp: obj_set_same)
qed

text \<open>
  C10, as amended.  A notification whose priority is CRITICAL, in particular every
  classified escalation, matches the first rule: the result has priority 5, its metadata
  carries \<open>prioritizationReason\<close> ``Critical priority escalation'' and \<open>originalPriority\<close>
  5 and otherwise the properties of the input metadata, and every other field is
  unchanged.  The metadata of the result equals that of the input exactly when the input
  metadata is an object that already holds these two entries, as the result of an earlier
  prioritization does; the metadata of a classified escalation never does.
\<close>
theorem critical_takes_first_rule:
  "priority n = CRITICAL \<or> (\<exists>env d. generateNotification env ESCALATION d = Inr n) \<Longrightarrow>
   \<exists>n'. prioritize rtm n = Inr n'
      \<and> priority n' = 5
      \<and> js_prop (metadata n') ''prioritizationReason'' = JStr ''Critical priority escalation''
      \<and> js_prop (metadata n') ''originalPriority'' = JNum (Finite 5)
      \<and> (\<forall>k. k \<noteq> ''prioritizationReason'' \<and> k \<noteq> ''originalPriority''
            \<longrightarrow> js_prop (metadata n') k = js_prop (JObj (js_spread (metadata n))) k)
      \<and> n' = n\<lparr>metadata := metadata n'\<rparr>
      \<and> ((metadata n' = metadata n)
           = (\<exists>kvs. metadata n = JObj kvs
                \<and> map_of kvs ''prioritizationReason'' = Some (JStr ''Critical priority escalation'')
                \<and> map_of kvs ''originalPriority'' = Some (JNum (Finite 5))))
      \<and> ((\<exists>env d. generateNotification env ESCALATION d = Inr n) \<longrightarrow> metadata n' \<noteq> metadata n)"
proof -
  assume a: "priority n = CRITICAL \<or> (\<exists>env d. generateNotification env ESCALATION d = Inr n)"
  then have c: "priority n = CRITICAL"
    using classify_escalation by blast
  let ?m = "JObj (obj_set ''originalPriority'' (JNum (Finite 5))
                     (obj_set ''prioritizationReason'' (JStr ''Critical priority escalation'')
                       (js_spread (metadata n))))"
  have 1: "js_prop ?m ''prioritizationReason'' = JStr ''Critical priority escalation''"
    and 2: "js_prop ?m ''originalPriority'' = JNum (Finite 5)"
    and 3: "\<forall>k. k \<noteq> ''prioritizationReason'' \<and> k \<noteq> ''originalPriority''
            \<longrightarrow> js_prop ?m k = js_prop (JObj (js_spread (metadata n))) k"
    by (simp_all add: map_of_obj_set)
  have 4: "(?m = metadata n)
           = (\<exists>kvs. metadata n = JObj kvs
                \<and> map_of kvs ''prioritizationReason'' = Some (JStr ''Critical priority escalation'')
                \<and> map_of kvs ''originalPriority'' = Some (JNum (Finite 5)))"
    by (rule critical_metadata_unchanged)
  have 5: "priority (n\<lparr>metadata := ?m\<rparr>) = 5"
    using c by (simp add: CRITICAL_def)
  have 6: "(\<exists>env d. generateNotification env ESCALATION d = Inr n) \<longrightarrow> ?m \<noteq> metadata n"
  proof
    assume "\<exists>env d. generateNotification env ESCALATION d = Inr n"
    then obtain d where "metadata n = JObj [(''escalationType'', js_prop d ''escalationType''),
                        (''reason'', js_prop d ''reason''),
                        (''escalatedTo'', js_prop d ''escalatedTo'')]"
      using classify_escalation by blast
    then show "?m \<noteq> metadata n"
      unfolding 4 by simp
  qed
  show ?thesis
    unfolding prioritize_critical [OF c] using 1 2 3 4 5 6 by simp
qed

theorem critical_takes_first_rule_witness:
  "generateNotification example_env ESCALATION
     (JObj [(''reason'', JStr ''SLA breach''), (''escalatedTo'', JStr ''gm-1'')])
       = Inr escalation_example
   \<and> priority escalation_example = CRITICAL
   \<and> ntype escalation_example = ESCALATION
   \<and> prioritize example_runtime escalation_example = Inr prioritized_escalation
   \<and> metadata prioritized_escalation \<noteq> metadata escalation_example"
proof -
  have c: "priority escalation_example = CRITICAL"
    by (simp add: escalation_example_def CRITICAL_def)
  have t: "ntype escalation_example = ESCALATION"
    by (simp add: escalation_example_def ESCALATION_def)
  have g: "\<exists>env d. generateNotification env ESCALATION d = Inr escalation_example"
    using classify_escalation_example by blast
  from critical_takes_first_rule [of escalation_example example_runtime] g
  obtain n' where n': "prioritize example_runtime escalation_example = Inr n'"
    and ne: "metadata n' \<noteq> metadata escalation_example"
    by blast
  have "prioritize example_runtime escalation_example = Inr prioritized_escalation"
    by (simp add: prioritize_def prioritize_with_def rules_def apply_rule_def CRITICAL_def
          escalation_example_def prioritized_escalation_def)
  with n' ne c t classify_escalation_example show ?thesis by simp
qed

text \<open>
  C10 as stated fails: the escalation example after its prioritization.  Its priority is
  CRITICAL and its metadata already holds both entries, so \<open>prioritize\<close> returns it as
  it is, metadata included.
\<close>
theorem critical_unchanged_counterexample:
  "prioritize example_runtime escalation_example = Inr prioritized_escalation
   \<and> priority prioritized_escalation = CRITICAL
   \<and> prioritize example_runtime prioritized_escalation = Inr prioritized_escalation
   \<and> metadata prioritized_escalation
       = JObj [(''escalationType'', JUndefined), (''reason'', JStr ''SLA breach''),
               (''escalatedTo'', JStr ''gm-1''),
               (''prioritizationReason'', JStr ''Critical priority escalation''),
               (''originalPriority'', JNum (Finite 5))]"
  by (simp add: prioritize_def prioritize_with_def rules_def apply_rule_def CRITICAL_def
        escalation_example_def prioritized_escalation_def)











text \<open>
  A payload that is not plain: its title is an object with an own property \<open>toString\<close>.
  The template of the title raises, and so does the classifier.
\<close>

lemma classify_raises_on_unprintable:
  "\<not> nullish unprintable_payload \<and> \<not> plain unprintable_payload
   \<and> generateNotification env PROPOSAL_CREATED unprintable_payload = Inl TypeError"
  by (simp add: unprintable_payload_def generateNotification_def build_def Let_def)














lemma group_of_push:
  "group_of (group_push c n g) c' = (if c' = c then group_of g c @ [n] else group_of g c')"
  by (induction c n g rule: group_push.induct) (auto simp: group_of_def)

lemma keys_push:
  "map fst (group_push c n g) = (if c \<in> set (map fst g) then map fst g else map fst g @ [c])"
  by (induction c n g rule: group_push.induct) auto

lemma distinct_push: "distinct (map fst g) \<Longrightarrow> distinct (map fst (group_push c n g))"
  by (simp add: keys_push)

lemma set_keys_push: "fst ` set (group_push c n g) = insert c (fst ` set g)"
  by (induction c n g rule: group_push.induct) auto

lemma inner_fold:
  "group_of (foldl (\<lambda>g c. group_push c n g) g cs) c' = group_of g c' @ replicate (count_list cs c') n"
  by (induction cs arbitrary: g) (auto simp: group_of_push replicate_app_Cons_same)

lemma inner_fold_keys:
  "fst ` set (foldl (\<lambda>g c. group_push c n g) g cs) = fst ` set g \<union> set cs"
  by (induction cs arbitrary: g) (auto simp: set_keys_push)

lemma inner_fold_distinct:
  "distinct (map fst g) \<Longrightarrow> distinct (map fst (foldl (\<lambda>g c. group_push c n g) g cs))"
  by (induction cs arbitrary: g) (auto simp: distinct_push)

lemma outer_fold:
  "group_of (foldl (\<lambda>grouped n. foldl (\<lambda>g c. group_push c n g) grouped (channels n)) g batch) c
     = group_of g c @ sub_batch c batch"
  by (induction batch arbitrary: g) (auto simp: inner_fold sub_batch_def)

lemma outer_fold_keys:
  "fst ` set (foldl (\<lambda>grouped n. foldl (\<lambda>g c. group_push c n g) grouped (channels n)) g batch)
     = fst ` set g \<union> (\<Union>n \<in> set batch. set (channels n))"
  by (induction batch arbitrary: g) (auto simp: inner_fold_keys)

lemma outer_fold_distinct:
  "distinct (map fst g) \<Longrightarrow>
   distinct (map fst (foldl (\<lambda>grouped n. foldl (\<lambda>g c. group_push c n g) grouped (channels n)) g batch))"
  by (induction batch arbitrary: g) (auto simp: inner_fold_distinct)

lemma group_keys: "fst ` set (groupBatchByChannel batch) = (\<Union>n \<in> set batch. set (channels n))"
  by (simp add: groupBatchByChannel_def outer_fold_keys)

lemma group_distinct: "distinct (map fst (groupBatchByChannel batch))"
  by (simp add: groupBatchByChannel_def outer_fold_distinct)

lemma group_contents: "group_of (groupBatchByChannel batch) c = sub_batch c batch"
  unfolding groupBatchByChannel_def using outer_fold [of "[]" batch c]
  by (simp add: group_of_def)

lemma set_sub_batch: "set (sub_batch c batch) = {n \<in> set batch. c \<in> set (channels n)}"
  by (auto simp: sub_batch_def count_list_0_iff)

lemma count_distinct: "distinct xs \<Longrightarrow> count_list xs x = (if x \<in> set xs then 1 else 0)"
  by (induction xs) auto

lemma sub_batch_distinct:
  "\<forall>n \<in> set batch. distinct (channels n) \<Longrightarrow>
   sub_batch c batch = filter (\<lambda>n. c \<in> set (channels n)) batch"
proof (induction batch)
  case Nil
  then show ?case by (simp add: sub_batch_def)
next
  case (Cons n batch)
  have "count_list (channels n) c = (if c \<in> set (channels n) then 1 else 0)"
    using Cons.prems by (simp add: count_distinct)
  with Cons show ?case by (simp add: sub_batch_def)
qed

lemma processChannelBatch_fields:
  "notificationQueue (processChannelBatch c ns s) = notificationQueue s"
  "channelMap (processChannelBatch c ns s) = channelMap s"
  "batchTimer (processChannelBatch c ns s) = batchTimer s"
  "timeouts (processChannelBatch c ns s) = timeouts s"
  "rateLimiters (processChannelBatch c ns s) = rateLimiters s"
  "emitted (processChannelBatch c ns s) = emitted s"
  by (simp_all add: processChannelBatch_def logger_def Let_def split: option.splits)

lemma processChannelBatch_sendCalls:
  "sendCalls (processChannelBatch c ns s) = sendCalls s @ handed_over (channelMap s) [(c, ns)]"
  by (simp add: processChannelBatch_def handed_over_def logger_def Let_def split: option.splits)

lemma handed_over_append: "handed_over cm (g @ h) = handed_over cm g @ handed_over cm h"
  by (simp add: handed_over_def)

lemma route_fields:
  "notificationQueue (foldl (\<lambda>s (c, ns). processChannelBatch c ns s) s g) = notificationQueue s
   \<and> channelMap (foldl (\<lambda>s (c, ns). processChannelBatch c ns s) s g) = channelMap s
   \<and> batchTimer (foldl (\<lambda>s (c, ns). processChannelBatch c ns s) s g) = batchTimer s
   \<and> timeouts (foldl (\<lambda>s (c, ns). processChannelBatch c ns s) s g) = timeouts s
   \<and> rateLimiters (foldl (\<lambda>s (c, ns). processChannelBatch c ns s) s g) = rateLimiters s
   \<and> emitted (foldl (\<lambda>s (c, ns). processChannelBatch c ns s) s g) = emitted s"
  by (induction g arbitrary: s) (auto simp: processChannelBatch_fields)

lemma route_sendCalls:
  "sendCalls (foldl (\<lambda>s (c, ns). processChannelBatch c ns s) s g)
     = sendCalls s @ handed_over (channelMap s) g"
proof (induction g arbitrary: s)
  case Nil
  then show ?case by (simp add: handed_over_def)
next
  case (Cons p g)
  obtain c ns where p: "p = (c, ns)" by (cases p)
  have "handed_over (channelMap s) (p # g)
          = handed_over (channelMap s) [(c, ns)] @ handed_over (channelMap s) g"
    using handed_over_append [of "channelMap s" "[p]" g] by (simp add: p)
  with Cons show ?case
    by (simp add: p processChannelBatch_sendCalls processChannelBatch_fields)
qed

lemma processBatch_empty: "notificationQueue s = [] \<Longrightarrow> processBatch t s = s"
  by (simp add: processBatch_def)

lemma processBatch_queue:
  "notificationQueue (processBatch t s) = drop batchSize (notificationQueue s)"
  by (simp add: processBatch_def Let_def route_fields logger_def scheduleBatchProcessing_def)

lemma processBatch_sendCalls:
  "sendCalls (processBatch t s)
     = sendCalls s @ handed_over (channelMap s)
                       (groupBatchByChannel (take batchSize (notificationQueue s)))"
  by (simp add: processBatch_def Let_def route_fields route_sendCalls logger_def
        scheduleBatchProcessing_def groupBatchByChannel_def handed_over_def)

text \<open>A flush that leaves a remainder re-arms the timer at once.\<close>

lemma processBatch_batchTimer:
  "batchTimer (processBatch t s)
     = (if drop batchSize (notificationQueue s) \<noteq> [] then Some (t + batchTimeout) else batchTimer s)"
  by (simp add: processBatch_def Let_def route_fields logger_def scheduleBatchProcessing_def)


lemma handed_over_Cons:
  "handed_over cm ((k, ns) # g)
     = (if cm k \<noteq> None then [(k, sort_key (\<lambda>n. - priority n) ns)] else []) @ handed_over cm g"
  by (simp add: handed_over_def)

lemma handed_over_keys: "fst ` set (handed_over cm g) \<subseteq> fst ` set g"
  by (force simp: handed_over_def)

lemma calls_for_channel:
  "distinct (map fst g) \<Longrightarrow>
   filter (\<lambda>p. fst p = c) (handed_over cm g)
     = (if c \<in> fst ` set g \<and> cm c \<noteq> None
        then [(c, sort_key (\<lambda>n. - priority n) (group_of g c))] else [])"
proof (induction g)
  case Nil
  then show ?case by (simp add: handed_over_def)
next
  case (Cons p g)
  obtain k ns where p: "p = (k, ns)" by (cases p)
  show ?case
  proof (cases "k = c")
    case True
    with Cons.prems p have "c \<notin> fst ` set g" by auto
    then have "filter (\<lambda>p. fst p = c) (handed_over cm g) = []"
      using handed_over_keys [of cm g] by (auto simp: filter_empty_conv)
    with True show ?thesis
      by (simp add: p handed_over_Cons group_of_def)
  next
    case False
    with Cons show ?thesis
      by (simp add: p handed_over_Cons group_of_def)
  qed
qed

lemma sorted_desc:
  "sorted_wrt (\<lambda>a b. priority b \<le> priority a) (sort_key (\<lambda>n. - priority n) xs)"
  using sorted_sort_key [of "\<lambda>n. - priority n" xs]
  by (simp add: sorted_map)

lemma stable_desc:
  "filter (\<lambda>n. priority n = p) (sort_key (\<lambda>n. - priority n) xs) = filter (\<lambda>n. priority n = p) xs"
  using sort_key_stable [of "\<lambda>n. - priority n" "- p" xs] by simp

text \<open>
  C8.  \<open>processBatch\<close> removes the \<open>min batchSize (length queue)\<close> oldest notifications
  from the queue, leaving the rest in order; these are the notifications it routes.  On
  an empty queue it leaves the whole service unchanged.
\<close>
theorem flush_takes_oldest:
  "notificationQueue (processBatch t s)
     = drop (min batchSize (length (notificationQueue s))) (notificationQueue s)
   \<and> take (min batchSize (length (notificationQueue s))) (notificationQueue s)
         @ notificationQueue (processBatch t s) = notificationQueue s
   \<and> sendCalls (processBatch t s)
       = sendCalls s @ handed_over (channelMap s)
           (groupBatchByChannel
              (take (min batchSize (length (notificationQueue s))) (notificationQueue s)))
   \<and> (notificationQueue s = [] \<longrightarrow> processBatch t s = s)"
proof -
  have d: "drop (min batchSize (length (notificationQueue s))) (notificationQueue s)
             = drop batchSize (notificationQueue s)"
    by (simp add: min_def)
  have t: "take (min batchSize (length (notificationQueue s))) (notificationQueue s)
             = take batchSize (notificationQueue s)"
    by (simp add: min_def)
  show ?thesis
    by (simp add: d t processBatch_queue processBatch_sendCalls processBatch_empty)
qed

text \<open>
  C6.  In a flush of the batch (the first \<open>batchSize\<close> notifications of the queue), the
  sender of a registered channel that some notification of the batch names is called
  exactly once, with the sub-batch of that channel sorted; no other channel is called.
  The sub-batch holds exactly the notifications of the batch that name the channel, so one
  that names two channels is in both.  The batch handed over is in descending order of
  priority, and notifications of equal priority keep the order they had in the batch.
\<close>
theorem fan_out_and_order:
  "batch = take batchSize (notificationQueue s) \<Longrightarrow>
   handed = drop (length (sendCalls s)) (sendCalls (processBatch t s)) \<Longrightarrow>
     map snd (filter (\<lambda>p. fst p = c) handed)
       = (if (\<exists>n \<in> set batch. c \<in> set (channels n)) \<and> channelMap s c \<noteq> None
          then [sort_key (\<lambda>n. - priority n) (sub_batch c batch)] else [])
   \<and> set (sort_key (\<lambda>n. - priority n) (sub_batch c batch)) = {n \<in> set batch. c \<in> set (channels n)}
   \<and> sorted_wrt (\<lambda>a b. priority b \<le> priority a) (sort_key (\<lambda>n. - priority n) (sub_batch c batch))
   \<and> filter (\<lambda>n. priority n = p) (sort_key (\<lambda>n. - priority n) (sub_batch c batch))
       = filter (\<lambda>n. priority n = p) (sub_batch c batch)
   \<and> ((\<forall>n \<in> set batch. distinct (channels n))
        \<longrightarrow> sub_batch c batch = filter (\<lambda>n. c \<in> set (channels n)) batch)"
proof -
  assume b: "batch = take batchSize (notificationQueue s)"
    and h: "handed = drop (length (sendCalls s)) (sendCalls (processBatch t s))"
  have "handed = handed_over (channelMap s) (groupBatchByChannel batch)"
    by (simp add: h b processBatch_sendCalls)
  then have "filter (\<lambda>p. fst p = c) handed
      = (if (\<exists>n \<in> set batch. c \<in> set (channels n)) \<and> channelMap s c \<noteq> None
         then [(c, sort_key (\<lambda>n. - priority n) (sub_batch c batch))] else [])"
    using calls_for_channel [OF group_distinct, of c "channelMap s" batch]
    by (simp add: group_keys group_contents)
  then show ?thesis
    using sub_batch_distinct [of batch c]
    by (simp add: set_sub_batch sorted_desc stable_desc)
qed

lemma logged_processChannelBatch:
  "set (logged s) \<subseteq> set (logged (processChannelBatch c ns s))"
  by (auto simp: processChannelBatch_def logger_def Let_def split: option.splits)

lemma logged_route:
  "set (logged s) \<subseteq> set (logged (foldl (\<lambda>s (c, ns). processChannelBatch c ns s) s g))"
proof (induction g arbitrary: s)
  case Nil
  then show ?case by simp
next
  case (Cons p g)
  obtain c ns where p: "p = (c, ns)" by (cases p)
  show ?case
    using Cons [of "processChannelBatch c ns s"] logged_processChannelBatch [of s c ns]
    by (auto simp: p)
qed

lemma warn_route:
  "(c, ns) \<in> set g \<Longrightarrow> channelMap s c = None \<Longrightarrow>
   (LWarn, ''Channel '' @ c @ '' not found'')
     \<in> set (logged (foldl (\<lambda>s (c, ns). processChannelBatch c ns s) s g))"
proof (induction g arbitrary: s)
  case Nil
  then show ?case by simp
next
  case (Cons p g)
  obtain k ms where p: "p = (k, ms)" by (cases p)
  show ?case
  proof (cases "(c, ns) = (k, ms)")
    case True
    with Cons.prems have "(LWarn, ''Channel '' @ c @ '' not found'')
        \<in> set (logged (processChannelBatch k ms s))"
      by (simp add: processChannelBatch_def logger_def)
    with logged_route [of "processChannelBatch k ms s" g] show ?thesis
      by (auto simp: p)
  next
    case False
    with Cons.prems p have "(c, ns) \<in> set g" by auto
    from Cons.IH [OF this, of "processChannelBatch k ms s"] Cons.prems show ?thesis
      by (simp add: p processChannelBatch_fields)
  qed
qed

lemma error_route:
  "(c, ns) \<in> set g \<Longrightarrow> channelMap s c = Some f \<Longrightarrow> f (sort_key (\<lambda>n. - priority n) ns) = Some e \<Longrightarrow>
   (LError, ''Error processing batch for channel '' @ c @ '':'')
     \<in> set (logged (foldl (\<lambda>s (c, ns). processChannelBatch c ns s) s g))"
proof (induction g arbitrary: s)
  case Nil
  then show ?case by simp
next
  case (Cons p g)
  obtain k ms where p: "p = (k, ms)" by (cases p)
  show ?case
  proof (cases "(c, ns) = (k, ms)")
    case True
    with Cons.prems have "(LError, ''Error processing batch for channel '' @ c @ '':'')
        \<in> set (logged (processChannelBatch k ms s))"
      by (simp add: processChannelBatch_def logger_def)
    with logged_route [of "processChannelBatch k ms s" g] show ?thesis
      by (auto simp: p)
  next
    case False
    with Cons.prems p have "(c, ns) \<in> set g" by auto
    from Cons.IH [OF this, of "processChannelBatch k ms s"] Cons.prems show ?thesis
      by (simp add: p processChannelBatch_fields)
  qed
qed

lemma handed_over_dom: "dom cm' = dom cm \<Longrightarrow> handed_over cm' g = handed_over cm g"
proof -
  assume "dom cm' = dom cm"
  then have "\<And>c. (cm' c \<noteq> None) = (cm c \<noteq> None)"
    by (metis domIff)
  then show ?thesis by (simp add: handed_over_def)
qed

lemma handed_over_mem:
  "(c, ns) \<in> set g \<Longrightarrow> cm c \<noteq> None \<Longrightarrow> (c, sort_key (\<lambda>n. - priority n) ns) \<in> set (handed_over cm g)"
  by (force simp: handed_over_def)










lemma constructor_fields:
  "notificationQueue constructor = []" "rateLimiters constructor = Map.empty"
  "batchTimer constructor = None" "sendCalls constructor = []" "timeouts constructor = []"
  "channelMap constructor IN_APP = Some InAppChannel"
  "channelMap constructor EMAIL = Some EmailChannel"
  "channelMap constructor SLACK = Some SlackChannel"
  "channelMap constructor TEAMS = Some TeamsChannel"
  by (simp_all add: constructor_def initializeChannels_def logger_def channel_defs)








lemma processBatch_logged:
  "notificationQueue s \<noteq> [] \<Longrightarrow>
   \<exists>m. logged (processBatch t s) =
     logged (foldl (\<lambda>s (c, ns). processChannelBatch c ns s)
               (logger LInfo m (s\<lparr>notificationQueue := drop batchSize (notificationQueue s)\<rparr>))
               (groupBatchByChannel (take batchSize (notificationQueue s))))"
  by (simp add: processBatch_def Let_def scheduleBatchProcessing_def) blast

lemma groups_nonempty_queue:
  "(c, ns) \<in> set (groupBatchByChannel (take batchSize (notificationQueue s))) \<Longrightarrow>
   notificationQueue s \<noteq> []"
  by (auto simp: groupBatchByChannel_def)

lemma processBatch_warns:
  assumes m: "(c, ns) \<in> set (groupBatchByChannel (take batchSize (notificationQueue s)))"
    and u: "channelMap s c = None"
  shows "(LWarn, ''Channel '' @ c @ '' not found'') \<in> set (logged (processBatch t s))"
proof -
  from processBatch_logged [OF groups_nonempty_queue [OF m], of t]
  obtain msg where l: "logged (processBatch t s) =
     logged (foldl (\<lambda>s (c, ns). processChannelBatch c ns s)
               (logger LInfo msg (s\<lparr>notificationQueue := drop batchSize (notificationQueue s)\<rparr>))
               (groupBatchByChannel (take batchSize (notificationQueue s))))"
    by blast
  have "channelMap (logger LInfo msg (s\<lparr>notificationQueue := drop batchSize (notificationQueue s)\<rparr>)) c = None"
    using u by (simp add: logger_def)
  from warn_route [OF m this] show ?thesis
    unfolding l .
qed

lemma processBatch_errors:
  assumes m: "(c, ns) \<in> set (groupBatchByChannel (take batchSize (notificationQueue s)))"
    and f: "channelMap s c = Some f" and e: "f (sort_key (\<lambda>n. - priority n) ns) = Some e"
  shows "(LError, ''Error processing batch for channel '' @ c @ '':'')
           \<in> set (logged (processBatch t s))"
proof -
  from processBatch_logged [OF groups_nonempty_queue [OF m], of t]
  obtain msg where l: "logged (processBatch t s) =
     logged (foldl (\<lambda>s (c, ns). processChannelBatch c ns s)
               (logger LInfo msg (s\<lparr>notificationQueue := drop batchSize (notificationQueue s)\<rparr>))
               (groupBatchByChannel (take batchSize (notificationQueue s))))"
    by blast
  have "channelMap (logger LInfo msg (s\<lparr>notificationQueue := drop batchSize (notificationQueue s)\<rparr>)) c = Some f"
    using f by (simp add: logger_def)
  from error_route [OF m this e] show ?thesis
    unfolding l .
qed

text \<open>
  C7.  In a flush, the batches handed to the senders are those of the groups whose
  channel is registered, all of them and in the order of the groups, whatever any sender
  answers: replacing the senders by others on the same channels changes neither the calls
  nor the queue.  A group whose channel is not registered is skipped with the warning
  logged, a sender that raises gets its error logged, and the flush runs to its end: the
  queue is the remainder.
\<close>
theorem channel_failures_isolated:
  "sendCalls (processBatch t s)
     = sendCalls s @ handed_over (channelMap s)
                       (groupBatchByChannel (take batchSize (notificationQueue s)))
   \<and> notificationQueue (processBatch t s) = drop batchSize (notificationQueue s)
   \<and> ((c, ns) \<in> set (groupBatchByChannel (take batchSize (notificationQueue s)))
        \<longrightarrow> (channelMap s c \<noteq> None
               \<longrightarrow> (c, sort_key (\<lambda>n. - priority n) ns)
                     \<in> set (drop (length (sendCalls s)) (sendCalls (processBatch t s))))
          \<and> (channelMap s c = None
               \<longrightarrow> (LWarn, ''Channel '' @ c @ '' not found'') \<in> set (logged (processBatch t s)))
          \<and> (\<forall>f e. channelMap s c = Some f \<and> f (sort_key (\<lambda>n. - priority n) ns) = Some e
               \<longrightarrow> (LError, ''Error processing batch for channel '' @ c @ '':'')
                     \<in> set (logged (processBatch t s))))
   \<and> (dom cm = dom (channelMap s)
        \<longrightarrow> sendCalls (processBatch t (s\<lparr>channelMap := cm\<rparr>)) = sendCalls (processBatch t s)
          \<and> notificationQueue (processBatch t (s\<lparr>channelMap := cm\<rparr>))
              = notificationQueue (processBatch t s))"
proof -
  have handed: "(c, ns) \<in> set (groupBatchByChannel (take batchSize (notificationQueue s))) \<Longrightarrow>
      channelMap s c \<noteq> None \<Longrightarrow>
      (c, sort_key (\<lambda>n. - priority n) ns)
         \<in> set (drop (length (sendCalls s)) (sendCalls (processBatch t s)))"
    using handed_over_mem [of c ns _ "channelMap s"] by (simp add: processBatch_sendCalls)
  have indep: "dom cm = dom (channelMap s)
        \<longrightarrow> sendCalls (processBatch t (s\<lparr>channelMap := cm\<rparr>)) = sendCalls (processBatch t s)
          \<and> notificationQueue (processBatch t (s\<lparr>channelMap := cm\<rparr>))
              = notificationQueue (processBatch t s)"
  proof
    assume "dom cm = dom (channelMap s)"
    then have "handed_over cm (groupBatchByChannel (take batchSize (notificationQueue s)))
                 = handed_over (channelMap s) (groupBatchByChannel (take batchSize (notificationQueue s)))"
      by (rule handed_over_dom)
    then show "sendCalls (processBatch t (s\<lparr>channelMap := cm\<rparr>)) = sendCalls (processBatch t s)
          \<and> notificationQueue (processBatch t (s\<lparr>channelMap := cm\<rparr>))
              = notificationQueue (processBatch t s)"
      by (simp add: processBatch_sendCalls processBatch_queue)
  qed
  from handed processBatch_warns [of c ns s t] processBatch_errors [of c ns s _ _ t] indep
  show ?thesis
    unfolding processBatch_sendCalls [of t s] processBatch_queue [of t s] by blast
qed

lemma sample_fields: "priority (sample i p cs) = p" "channels (sample i p cs) = cs"
  by (simp_all add: sample_def)

lemma routing_groups:
  "groupBatchByChannel (notificationQueue routing_example)
     = [(IN_APP, [sample ''a'' MEDIUM [IN_APP, EMAIL], sample ''d'' CRITICAL [IN_APP]]),
        (EMAIL, [sample ''a'' MEDIUM [IN_APP, EMAIL], sample ''b'' CRITICAL [EMAIL, SLACK],
                 sample ''c'' MEDIUM [EMAIL]]),
        (SLACK, [sample ''b'' CRITICAL [EMAIL, SLACK]])]"
  by (simp add: routing_example_def groupBatchByChannel_def sample_fields channel_defs)

lemma routing_queue:
  "take batchSize (notificationQueue routing_example) = notificationQueue routing_example"
  "notificationQueue failing_example = notificationQueue routing_example"
  "sendCalls routing_example = []" "sendCalls failing_example = []"
  by (simp_all add: routing_example_def failing_example_def batchSize_def constructor_fields)

theorem channel_failures_isolated_witness:
  "(IN_APP, [sample ''a'' MEDIUM [IN_APP, EMAIL], sample ''d'' CRITICAL [IN_APP]])
      \<in> set (groupBatchByChannel (take batchSize (notificationQueue failing_example)))
   \<and> channelMap failing_example IN_APP = Some FailingChannel
   \<and> FailingChannel [sample ''d'' CRITICAL [IN_APP], sample ''a'' MEDIUM [IN_APP, EMAIL]] = Some TypeError
   \<and> channelMap failing_example SLACK = None
   \<and> sendCalls (processBatch 5000 failing_example)
       = [(IN_APP, [sample ''d'' CRITICAL [IN_APP], sample ''a'' MEDIUM [IN_APP, EMAIL]]),
          (EMAIL, [sample ''b'' CRITICAL [EMAIL, SLACK], sample ''a'' MEDIUM [IN_APP, EMAIL],
                   sample ''c'' MEDIUM [EMAIL]])]
   \<and> (LError, ''Error processing batch for channel in_app:'') \<in> set (logged (processBatch 5000 failing_example))
   \<and> (LWarn, ''Channel slack not found'') \<in> set (logged (processBatch 5000 failing_example))
   \<and> notificationQueue (processBatch 5000 failing_example) = []"
proof -
  let ?a = "sample ''a'' MEDIUM [IN_APP, EMAIL]" and ?b = "sample ''b'' CRITICAL [EMAIL, SLACK]"
  let ?c = "sample ''c'' MEDIUM [EMAIL]" and ?d = "sample ''d'' CRITICAL [IN_APP]"
  have g: "groupBatchByChannel (take batchSize (notificationQueue failing_example))
             = [(IN_APP, [?a, ?d]), (EMAIL, [?a, ?b, ?c]), (SLACK, [?b])]"
    by (simp only: routing_queue routing_groups)
  have m1: "(IN_APP, [?a, ?d]) \<in> set (groupBatchByChannel (take batchSize (notificationQueue failing_example)))"
    and m2: "(SLACK, [?b]) \<in> set (groupBatchByChannel (take batchSize (notificationQueue failing_example)))"
    unfolding g by simp_all
  have cm: "channelMap failing_example IN_APP = Some FailingChannel"
    "channelMap failing_example EMAIL = Some EmailChannel"
    "channelMap failing_example SLACK = None"
    by (simp_all add: failing_example_def channel_defs)
  have srt: "sort_key (\<lambda>n. - priority n) [?a, ?d] = [?d, ?a]"
    "sort_key (\<lambda>n. - priority n) [?a, ?b, ?c] = [?b, ?a, ?c]"
    by (simp_all add: sample_fields priority_defs)
  have f: "FailingChannel (sort_key (\<lambda>n. - priority n) [?a, ?d]) = Some TypeError"
    by (simp only: FailingChannel_def)
  have h: "handed_over (channelMap failing_example) [(IN_APP, [?a, ?d]), (EMAIL, [?a, ?b, ?c]), (SLACK, [?b])]
             = [(IN_APP, sort_key (\<lambda>n. - priority n) [?a, ?d]),
                (EMAIL, sort_key (\<lambda>n. - priority n) [?a, ?b, ?c])]"
    unfolding handed_over_def by (simp only: cm list.map concat.simps prod.case) simp
  note th = channel_failures_isolated [where t = 5000 and s = failing_example]
  have "sendCalls (processBatch 5000 failing_example)
          = sendCalls failing_example @ handed_over (channelMap failing_example)
              (groupBatchByChannel (take batchSize (notificationQueue failing_example)))"
    by (rule th [THEN conjunct1])
  also have "\<dots> = [(IN_APP, [?d, ?a]), (EMAIL, [?b, ?a, ?c])]"
    by (simp only: g h srt routing_queue(4) append_Nil)
  finally have s: "sendCalls (processBatch 5000 failing_example)
                     = [(IN_APP, [?d, ?a]), (EMAIL, [?b, ?a, ?c])]" .
  have q: "notificationQueue (processBatch 5000 failing_example) = []"
    using th [THEN conjunct2, THEN conjunct1] by (simp add: routing_queue(2) routing_example_def batchSize_def)
  note mem = th [THEN conjunct2, THEN conjunct2, THEN conjunct1, rule_format]
  have e: "(LError, ''Error processing batch for channel '' @ IN_APP @ '':'')
             \<in> set (logged (processBatch 5000 failing_example))"
    using mem [where c = IN_APP and ns = "[?a, ?d]", OF m1, THEN conjunct2, THEN conjunct2, rule_format, of FailingChannel TypeError]
          cm(1) f by blast
  have w: "(LWarn, ''Channel '' @ SLACK @ '' not found'') \<in> set (logged (processBatch 5000 failing_example))"
    using mem [where c = SLACK and ns = "[?b]", OF m2, THEN conjunct2, THEN conjunct1] cm(3) by blast
  have f': "FailingChannel [?d, ?a] = Some TypeError"
    by (simp only: FailingChannel_def)
  have e': "(LError, ''Error processing batch for channel in_app:'') \<in> set (logged (processBatch 5000 failing_example))"
    using e by (simp add: IN_APP_def)
  have w': "(LWarn, ''Channel slack not found'') \<in> set (logged (processBatch 5000 failing_example))"
    using w by (simp add: SLACK_def)
  from m1 cm(1) f' cm(3) s e' w' q show ?thesis
    by (intro conjI)
qed

theorem fan_out_and_order_witness:
  "map snd (filter (\<lambda>p. fst p = EMAIL)
       (drop (length (sendCalls routing_example)) (sendCalls (processBatch 5000 routing_example))))
     = [[sample ''b'' CRITICAL [EMAIL, SLACK], sample ''a'' MEDIUM [IN_APP, EMAIL],
         sample ''c'' MEDIUM [EMAIL]]]
   \<and> map snd (filter (\<lambda>p. fst p = IN_APP)
       (drop (length (sendCalls routing_example)) (sendCalls (processBatch 5000 routing_example))))
     = [[sample ''d'' CRITICAL [IN_APP], sample ''a'' MEDIUM [IN_APP, EMAIL]]]
   \<and> map snd (filter (\<lambda>p. fst p = TEAMS)
       (drop (length (sendCalls routing_example)) (sendCalls (processBatch 5000 routing_example))))
     = []"
proof -
  let ?a = "sample ''a'' MEDIUM [IN_APP, EMAIL]" and ?b = "sample ''b'' CRITICAL [EMAIL, SLACK]"
  let ?c = "sample ''c'' MEDIUM [EMAIL]" and ?d = "sample ''d'' CRITICAL [IN_APP]"
  have q: "[?a, ?b, ?c, ?d] = take batchSize (notificationQueue routing_example)"
    by (simp add: routing_example_def batchSize_def)
  have sb: "sub_batch EMAIL [?a, ?b, ?c, ?d] = [?a, ?b, ?c]"
    "sub_batch IN_APP [?a, ?b, ?c, ?d] = [?a, ?d]"
    by (simp_all add: sub_batch_def sample_fields channel_defs)
  have srt: "sort_key (\<lambda>n. - priority n) [?a, ?d] = [?d, ?a]"
    "sort_key (\<lambda>n. - priority n) [?a, ?b, ?c] = [?b, ?a, ?c]"
    by (simp_all add: sample_fields priority_defs)
  have there: "((\<exists>n \<in> set [?a, ?b, ?c, ?d]. EMAIL \<in> set (channels n)) \<and> channelMap routing_example EMAIL \<noteq> None) = True"
    "((\<exists>n \<in> set [?a, ?b, ?c, ?d]. IN_APP \<in> set (channels n)) \<and> channelMap routing_example IN_APP \<noteq> None) = True"
    by (simp_all add: sample_fields routing_example_def constructor_fields)
  have absent: "((\<exists>n \<in> set [?a, ?b, ?c, ?d]. TEAMS \<in> set (channels n)) \<and> channelMap routing_example TEAMS \<noteq> None) = False"
    by (simp add: sample_fields channel_defs)
  note th = fan_out_and_order [OF q refl, where t = 5000, THEN conjunct1]
  have 1: "map snd (filter (\<lambda>p. fst p = EMAIL)
       (drop (length (sendCalls routing_example)) (sendCalls (processBatch 5000 routing_example))))
     = [[?b, ?a, ?c]]"
    using th [of EMAIL] by (simp only: there if_True sb srt)
  have 2: "map snd (filter (\<lambda>p. fst p = IN_APP)
       (drop (length (sendCalls routing_example)) (sendCalls (processBatch 5000 routing_example))))
     = [[?d, ?a]]"
    using th [of IN_APP] by (simp only: there if_True sb srt)
  have 3: "map snd (filter (\<lambda>p. fst p = TEAMS)
       (drop (length (sendCalls routing_example)) (sendCalls (processBatch 5000 routing_example))))
     = []"
    using th [of TEAMS] by (simp only: absent if_False)
  from 1 2 3 show ?thesis by (intro conjI)
qed

lemma backlog_facts:
  "notificationQueue backlog_example = letters ''abcdefghijkl''"
  "sendCalls backlog_example = []"
  "channelMap backlog_example IN_APP \<noteq> None"
  by (simp_all add: backlog_example_def constructor_fields)

lemma letters_fields:
  "take batchSize (letters ''abcdefghijkl'') = letters ''abcdefghij''"
  "drop batchSize (letters ''abcdefghijkl'') = letters ''kl''"
  "length (letters ''abcdefghijkl'') = 12"
  "groupBatchByChannel (letters ''abcdefghij'') = [(IN_APP, letters ''abcdefghij'')]"
  "sort_key (\<lambda>n. - priority n) (letters ''abcdefghij'') = letters ''abcdefghij''"
  by (simp_all add: letters_def batchSize_def groupBatchByChannel_def sample_fields)

theorem flush_takes_oldest_witness:
  "notificationQueue backlog_example = letters ''abcdefghijkl''
   \<and> notificationQueue (processBatch 5000 backlog_example) = letters ''kl''
   \<and> sendCalls (processBatch 5000 backlog_example) = [(IN_APP, letters ''abcdefghij'')]
   \<and> notificationQueue constructor = []
   \<and> processBatch 5000 constructor = constructor"
proof -
  have m: "min batchSize (length (letters ''abcdefghijkl'')) = batchSize"
    by (simp add: letters_fields batchSize_def)
  have h: "handed_over (channelMap backlog_example) [(IN_APP, letters ''abcdefghij'')]
             = [(IN_APP, letters ''abcdefghij'')]"
    using backlog_facts(3) by (simp add: handed_over_def letters_fields)
  note th = flush_takes_oldest [where t = 5000 and s = backlog_example]
  have 1: "notificationQueue (processBatch 5000 backlog_example) = letters ''kl''"
    using th [THEN conjunct1] by (simp only: m backlog_facts letters_fields(1,2,4,5))
  have 2: "sendCalls (processBatch 5000 backlog_example) = [(IN_APP, letters ''abcdefghij'')]"
    using th [THEN conjunct2, THEN conjunct2, THEN conjunct1]
    by (simp only: m backlog_facts letters_fields(1,2,4,5) h append_Nil)
  have 3: "processBatch 5000 constructor = constructor"
    using flush_takes_oldest [where t = 5000 and s = constructor, THEN conjunct2, THEN conjunct2, THEN conjunct2]
          constructor_fields(1) by blast
  from backlog_facts(1) 1 2 constructor_fields(1) 3 show ?thesis
    by (intro conjI)
qed

text \<open>
  The examples convert no number to a string and no string to a number: on every runtime
  the classifier and the prioritizer give the results they give on \<open>example_runtime\<close>.
\<close>

lemma examples_classified_on_any_runtime:
  "generateNotification (example_env\<lparr>rt := r\<rparr>) DEADLINE_ALERT
     (JObj [(''taskTitle'', JStr ''Bid''), (''estimatedValue'', JNum (Finite 2000000))]) = Inr deadline_example"
  "generateNotification (example_env\<lparr>rt := r\<rparr>) TASK_ASSIGNED
     (JObj [(''title'', JStr ''Quote''), (''estimatedValue'', JNum (Finite 2000000))]) = Inr high_value_task"
  "generateNotification (example_env\<lparr>rt := r\<rparr>) TASK_ASSIGNED (JObj [(''title'', JStr ''Quote'')])
     = Inr plain_task"
  "generateNotification (example_env\<lparr>rt := r\<rparr>) TASK_ASSIGNED user_payload = Inr user_task"
  "generateNotification (example_env\<lparr>rt := r\<rparr>) ESCALATION
     (JObj [(''reason'', JStr ''SLA breach''), (''escalatedTo'', JStr ''gm-1'')]) = Inr escalation_example"
  "generateNotification ((tick i)\<lparr>rt := r\<rparr>) ''report_ready'' (JObj []) = Inr (report i)"
  by (simp_all add: generateNotification_def baseNotification_def Let_def type_defs example_env_def
        deadline_example_def high_value_task_def plain_task_def user_task_def user_payload_def
        task_example_def escalation_example_def report_def sample_def tick_def
        build_def full_name_or_unknown_def js_or_def js_opt_get_def dq_def priority_defs
        channel_defs string_of_1000)

lemma examples_prioritized_on_any_runtime:
  "prioritize r deadline_example = prioritize example_runtime deadline_example"
  "prioritize r high_value_task = prioritize example_runtime high_value_task"
  "prioritize r plain_task = prioritize example_runtime plain_task"
  "prioritize r high_value_proposal = prioritize example_runtime high_value_proposal"
  "prioritize r user_task = prioritize example_runtime user_task"
  "prioritize r escalation_example = prioritize example_runtime escalation_example"
  "prioritize r prioritized_escalation = prioritize example_runtime prioritized_escalation"
  "prioritize r (report i) = prioritize example_runtime (report i)"
  by (simp_all add: prioritize_def prioritize_with_def rules_def deadline_example_def
        high_value_task_def plain_task_def high_value_proposal_def user_task_def task_example_def
        escalation_example_def prioritized_escalation_def report_def sample_def
        type_defs priority_defs js_opt_get_def js_gt_def apply_rule_def)

end
